theory Spec2Isabelle
  imports Complex_Main "HOL-Library.Word"
begin

section \<open>JavaScript strings\<close>

text \<open>
  A JavaScript string is a sequence of UTF-16 code units; \<open>length\<close>, \<open>trim\<close>,
  \<open>substring\<close> and \<open>includes\<close> all work on code units. String literals of the
  source are written with \<open>lit\<close> for their ASCII stretches and as explicit code units
  elsewhere (line feed \<open>0xA\<close>, double quote \<open>0x22\<close>, emoji as surrogate pairs).
\<close>

type_synonym js_string = "16 word list"

definition lit :: "string \<Rightarrow> js_string" where
  "lit s = map (\<lambda>c. of_nat (of_char c)) s"

text \<open>The code units removed by \<open>String.prototype.trim\<close>: WhiteSpace and LineTerminator.\<close>

definition isWhiteSpace :: "16 word \<Rightarrow> bool" where
  "isWhiteSpace c =
     (c = 0x9 \<or> c = 0xA \<or> c = 0xB \<or> c = 0xC \<or> c = 0xD \<or> c = 0x20 \<or> c = 0xA0
      \<or> c = 0x1680 \<or> (0x2000 \<le> c \<and> c \<le> 0x200A) \<or> c = 0x2028 \<or> c = 0x2029
      \<or> c = 0x202F \<or> c = 0x205F \<or> c = 0x3000 \<or> c = 0xFEFF)"

definition trim :: "js_string \<Rightarrow> js_string" where
  "trim s = rev (dropWhile isWhiteSpace (rev (dropWhile isWhiteSpace s)))"

text \<open>\<open>s.includes(p)\<close>: \<open>p\<close> occurs in \<open>s\<close> as a contiguous run.\<close>

fun str_includes :: "js_string \<Rightarrow> js_string \<Rightarrow> bool" where
  "str_includes s p =
     (if take (length p) s = p then True
      else (case s of [] \<Rightarrow> False | _ # s' \<Rightarrow> str_includes s' p))"

text \<open>Decimal digits of a natural number, as a template literal prints an integer.\<close>

fun digits :: "nat \<Rightarrow> js_string" where
  "digits n = (if n < 10 then [0x30 + of_nat n]
               else digits (n div 10) @ [0x30 + of_nat (n mod 10)])"

definition int_text :: "int \<Rightarrow> js_string" where
  "int_text i = (if i < 0 then lit ''-'' @ digits (nat (- i)) else digits (nat i))"

subsection \<open>\<open>JSON.stringify\<close> of the request object\<close>

definition hex_digit :: "nat \<Rightarrow> 16 word" where
  "hex_digit d = (if d < 10 then 0x30 + of_nat d else 0x61 + of_nat (d - 10))"

definition unicode_escape :: "16 word \<Rightarrow> js_string" where
  "unicode_escape c =
     (let n = unat c in
      [0x5C, 0x75, hex_digit (n div 4096), hex_digit (n div 256 mod 16),
       hex_digit (n div 16 mod 16), hex_digit (n mod 16)])"

definition is_high_surrogate :: "16 word \<Rightarrow> bool" where
  "is_high_surrogate c = (0xD800 \<le> c \<and> c \<le> 0xDBFF)"

definition is_low_surrogate :: "16 word \<Rightarrow> bool" where
  "is_low_surrogate c = (0xDC00 \<le> c \<and> c \<le> 0xDFFF)"

text \<open>One code unit that is not part of a surrogate pair, as QuoteJSONString writes it.\<close>

definition quote_unit :: "16 word \<Rightarrow> js_string" where
  "quote_unit c =
     (if c = 0x8 then [0x5C, 0x62]
      else if c = 0x9 then [0x5C, 0x74]
      else if c = 0xA then [0x5C, 0x6E]
      else if c = 0xC then [0x5C, 0x66]
      else if c = 0xD then [0x5C, 0x72]
      else if c = 0x22 then [0x5C, 0x22]
      else if c = 0x5C then [0x5C, 0x5C]
      else if c < 0x20 \<or> is_high_surrogate c \<or> is_low_surrogate c then unicode_escape c
      else [c])"

fun quote_units :: "js_string \<Rightarrow> js_string" where
  "quote_units [] = []"
| "quote_units [c] = quote_unit c"
| "quote_units (c # d # cs) =
     (if is_high_surrogate c \<and> is_low_surrogate d then c # d # quote_units cs
      else quote_unit c @ quote_units (d # cs))"

definition QuoteJSONString :: "js_string \<Rightarrow> js_string" where
  "QuoteJSONString s = [0x22] @ quote_units s @ [0x22]"

text \<open>\<open>JSON.stringify({ text })\<close> for a string \<open>text\<close>.\<close>

definition JSON_stringify_text :: "js_string \<Rightarrow> js_string" where
  "JSON_stringify_text text =
     lit ''{'' @ [0x22] @ lit ''text'' @ [0x22] @ lit '':'' @ QuoteJSONString text @ lit ''}''"

section \<open>JavaScript values and thrown errors\<close>

text \<open>
  The values \<open>response.json()\<close> can produce, and \<open>undefined\<close> for a property that is
  not there. A parsed object lists each key once. A number is kept as the exact value
  \<open>r\<close> of its JSON literal, \<open>JNum r\<close>; wherever the program uses it, it is the
  double nearest to \<open>r\<close> (see \<open>to_double\<close> below).
\<close>

datatype jsval =
    JUndefined
  | JNull
  | JBool bool
  | JNum rat
  | JStr js_string
  | JArr "jsval list"
  | JObj "(js_string \<times> jsval) list"

datatype js_error = Thrown (error_name: js_string) (error_message: js_string)

definition new_Error :: "js_string \<Rightarrow> js_error" where
  "new_Error m = Thrown (lit ''Error'') m"

datatype 'a promise = Pending | Rejected js_error | Fulfilled 'a

subsection \<open>Numbers\<close>

text \<open>
  A Number is an IEEE 754 double: a finite value, an infinity or NaN. Negative zero is
  not told apart from zero; the program cannot tell them apart either (both are falsy,
  print as \<open>0\<close> and compare alike).
\<close>

datatype number = Fin rat | PosInf | NegInf | NaN

text \<open>The number of binary digits of a positive integer.\<close>

function bit_length :: "int \<Rightarrow> int" where
  "bit_length n = (if n \<le> 0 then 0 else 1 + bit_length (n div 2))"
  by pat_completeness auto
termination
  by (relation "measure nat") auto

definition pow2 :: "int \<Rightarrow> rat" where
  "pow2 e = (if 0 \<le> e then 2 ^ nat e else 1 / 2 ^ nat (- e))"

text \<open>For \<open>a > 0\<close>, the exponent \<open>e\<close> with \<open>2 ^ e \<le> a < 2 ^ (e + 1)\<close>.\<close>

definition ilog2 :: "rat \<Rightarrow> int" where
  "ilog2 a =
     (if 1 \<le> a then bit_length \<lfloor>a\<rfloor> - 1
      else - bit_length (\<lceil>1 / a\<rceil> - 1))"

definition round_half_even :: "rat \<Rightarrow> int" where
  "round_half_even y =
     (let f = \<lfloor>y\<rfloor>; r = y - of_int f in
      if r < 1 / 2 then f else if 1 / 2 < r then f + 1 else if even f then f else f + 1)"

text \<open>
  For \<open>a > 0\<close>, the multiple of the spacing of doubles at \<open>a\<close> that is nearest to
  \<open>a\<close>, ties to the even one: 53 significant bits, and the fixed spacing
  \<open>pow2 (- 1074)\<close> below \<open>pow2 (- 1022)\<close>.
\<close>

definition spacing :: "rat \<Rightarrow> rat" where
  "spacing a = pow2 (max (ilog2 a) (- 1022) - 52)"

definition nearest :: "rat \<Rightarrow> rat" where
  "nearest a = of_int (round_half_even (a / spacing a)) * spacing a"

text \<open>The double that stands for the exact value \<open>x\<close>; from \<open>pow2 1024\<close> on it is infinite.\<close>

definition to_double :: "rat \<Rightarrow> number" where
  "to_double x =
     (if x = 0 then Fin 0
      else
        let d = nearest \<bar>x\<bar>
        in if pow2 1024 \<le> d then (if 0 < x then PosInf else NegInf)
           else Fin (if 0 < x then d else - d))"

text \<open>\<open>x * 100\<close>, \<open>Math.round(x)\<close>, \<open>Math.max(x, c)\<close> and \<open>x > c\<close> on Numbers.\<close>

definition times100 :: "number \<Rightarrow> number" where
  "times100 x = (case x of Fin a \<Rightarrow> to_double (a * 100) | _ \<Rightarrow> x)"

definition Math_round :: "number \<Rightarrow> number" where
  "Math_round x = (case x of Fin a \<Rightarrow> Fin (of_int \<lfloor>a + 1 / 2\<rfloor>) | _ \<Rightarrow> x)"

definition Math_max :: "number \<Rightarrow> rat \<Rightarrow> number" where
  "Math_max x c =
     (case x of Fin a \<Rightarrow> Fin (max a c) | PosInf \<Rightarrow> PosInf | NegInf \<Rightarrow> Fin c | NaN \<Rightarrow> NaN)"

definition greater :: "number \<Rightarrow> rat \<Rightarrow> bool" where
  "greater x c = (case x of Fin a \<Rightarrow> c < a | PosInf \<Rightarrow> True | _ \<Rightarrow> False)"

subsection \<open>The engine\<close>

text \<open>
  What the JavaScript engine and the browser decide and the program only uses:
  the text of a finite number that is not an integer of at most 53 bits, the number a
  string converts to, the message of the TypeError raised by reading a property of
  \<open>undefined\<close> or \<open>null\<close>, and the message of the rejection after an abort.
\<close>

datatype key = Name js_string | Index nat

record engine =
  NumberToString :: "rat \<Rightarrow> js_string"
  StringToNumber :: "js_string \<Rightarrow> number"
  TypeErrorMessage :: "jsval \<Rightarrow> key \<Rightarrow> js_string"
  AbortErrorMessage :: js_string

fun truthy :: "jsval \<Rightarrow> bool" where
  "truthy JUndefined = False"
| "truthy JNull = False"
| "truthy (JBool b) = b"
| "truthy (JNum r) = (to_double r \<noteq> Fin 0)"
| "truthy (JStr s) = (s \<noteq> [])"
| "truthy (JArr _) = True"
| "truthy (JObj _) = True"

fun nullish :: "jsval \<Rightarrow> bool" where
  "nullish JUndefined = True"
| "nullish JNull = True"
| "nullish _ = False"

text \<open>
  A property read \<open>v.name\<close>, \<open>v["name"]\<close> or \<open>v[i]\<close>. Reading from \<open>undefined\<close> or
  \<open>null\<close> throws a TypeError. The names this program reads (\<open>results\<close>, \<open>flagged\<close>,
  \<open>categories\<close>, \<open>category_scores\<close>, \<open>error\<close> and the five category names) are no
  property of an array, a string, a number or a boolean, nor inherited by an object.
\<close>

fun get_prop :: "engine \<Rightarrow> jsval \<Rightarrow> key \<Rightarrow> js_error + jsval" where
  "get_prop E JUndefined k = Inl (Thrown (lit ''TypeError'') (TypeErrorMessage E JUndefined k))"
| "get_prop E JNull k = Inl (Thrown (lit ''TypeError'') (TypeErrorMessage E JNull k))"
| "get_prop E (JObj kvs) (Name n) =
     Inr (case map_of kvs n of None \<Rightarrow> JUndefined | Some v \<Rightarrow> v)"
| "get_prop E (JObj kvs) (Index i) =
     Inr (case map_of kvs (digits i) of None \<Rightarrow> JUndefined | Some v \<Rightarrow> v)"
| "get_prop E (JArr xs) (Index i) = Inr (if i < length xs then xs ! i else JUndefined)"
| "get_prop E (JStr s) (Index i) = Inr (if i < length s then JStr [s ! i] else JUndefined)"
| "get_prop E _ _ = Inr JUndefined"

text \<open>The text of a Number, as \<open>String(x)\<close> and a template literal give it.\<close>

definition number_text :: "engine \<Rightarrow> number \<Rightarrow> js_string" where
  "number_text E x =
     (case x of
        Fin a \<Rightarrow>
          if of_int \<lfloor>a\<rfloor> = a \<and> \<bar>a\<bar> \<le> 2 ^ 53 then int_text \<lfloor>a\<rfloor> else NumberToString E a
      | PosInf \<Rightarrow> lit ''Infinity''
      | NegInf \<Rightarrow> lit ''-Infinity''
      | NaN \<Rightarrow> lit ''NaN'')"

fun join_comma :: "js_string list \<Rightarrow> js_string" where
  "join_comma [] = []"
| "join_comma [s] = s"
| "join_comma (s # t # ts) = s @ lit '','' @ join_comma (t # ts)"

fun ToString :: "engine \<Rightarrow> jsval \<Rightarrow> js_string" where
  "ToString E JUndefined = lit ''undefined''"
| "ToString E JNull = lit ''null''"
| "ToString E (JBool b) = (if b then lit ''true'' else lit ''false'')"
| "ToString E (JNum r) = number_text E (to_double r)"
| "ToString E (JStr s) = s"
| "ToString E (JArr xs) =
     join_comma (map (\<lambda>x. if nullish x then [] else ToString E x) xs)"
| "ToString E (JObj _) = lit ''[object Object]''"

fun ToNumber :: "engine \<Rightarrow> jsval \<Rightarrow> number" where
  "ToNumber E JUndefined = NaN"
| "ToNumber E JNull = Fin 0"
| "ToNumber E (JBool b) = Fin (if b then 1 else 0)"
| "ToNumber E (JNum r) = to_double r"
| "ToNumber E (JStr s) = StringToNumber E s"
| "ToNumber E v = StringToNumber E (ToString E v)"

section \<open>Configuration and page state\<close>

definition BACKEND_URL :: js_string where
  "BACKEND_URL = lit ''https://hate-speach-detection-model.onrender.com/analyze''"

definition MAX_INPUT_LENGTH :: nat where
  "MAX_INPUT_LENGTH = 2000"

definition REQUEST_TIMEOUT :: nat where
  "REQUEST_TIMEOUT = 30000"

text \<open>The five keys of \<open>DOM.categories\<close>.\<close>

datatype category = hate | harassment | selfHarm | sexual | violence

record bar =
  width :: js_string
  innerText :: js_string
  backgroundColor :: js_string

record request =
  url :: js_string
  http_method :: js_string
  content_type :: js_string
  body :: js_string

text \<open>
  Everything the script reads or writes: the elements it looks up at load
  (\<open>inputText\<close>, \<open>analyzeBtn\<close>, \<open>loader\<close>, \<open>resultBox\<close>, \<open>verdict\<close> are assumed present,
  as the script dereferences them unchecked; a category bar may be missing, which the
  script tests for), the alerts it has shown, the requests it has sent and the number
  of times a timer has run \<open>controller.abort()\<close>. \<open>verdictText\<close> holds the string
  last assigned to the verdict element.
\<close>

record page =
  inputText_value :: js_string
  analyzeBtn_disabled :: bool
  analyzeBtn_innerHTML :: js_string
  loader_display :: js_string
  resultBox_display :: js_string
  verdictText :: js_string
  categories :: "category \<Rightarrow> bar option"
  alerts :: "js_string list"
  requests :: "request list"
  aborts :: nat

section \<open>The network\<close>

text \<open>
  What the endpoint does with one request, with times in milliseconds after the call:
  response headers arrive, the transport fails, or nothing ever happens. Once the
  headers are there, reading the body as JSON gives a value, fails, or never ends.
\<close>

datatype body_read = BodyParsed jsval | BodyRejects js_error | BodyNever

record response =
  status :: nat
  json :: body_read

definition ok :: "response \<Rightarrow> bool" where
  "ok r = (200 \<le> status r \<and> status r \<le> 299)"

datatype network = Responds nat response | Fails nat js_error | Silent

text \<open>
  \<open>fetch\<close> with the signal of an AbortController that a timer aborts after \<open>ms\<close>
  milliseconds: whichever comes first settles the promise, and an event at the very
  instant of the timer loses against it. The boolean tells whether the timer ran
  \<open>controller.abort()\<close>.
\<close>

definition fetch :: "engine \<Rightarrow> nat \<Rightarrow> network \<Rightarrow> bool \<times> (js_error + response)" where
  "fetch E ms net =
     (let aborted = (True, Inl (Thrown (lit ''AbortError'') (AbortErrorMessage E))) in
      case net of
        Responds t r \<Rightarrow> if t < ms then (False, Inr r) else aborted
      | Fails t e \<Rightarrow> if t < ms then (False, Inl e) else aborted
      | Silent \<Rightarrow> aborted)"

definition send :: "js_string \<Rightarrow> js_string \<Rightarrow> bool \<Rightarrow> page \<Rightarrow> page" where
  "send u text aborted w =
     w\<lparr>requests := requests w @
          [\<lparr>url = u, http_method = lit ''POST'', content_type = lit ''application/json'',
            body = JSON_stringify_text text\<rparr>],
       aborts := (if aborted then aborts w + 1 else aborts w)\<rparr>"

section \<open>The script (source file part_000)\<close>

subsection \<open>UI updates\<close>

definition showLoader :: "bool \<Rightarrow> page \<Rightarrow> page" where
  "showLoader show w = w\<lparr>loader_display := (if show then lit ''block'' else lit ''none'')\<rparr>"

definition analyzing_html :: js_string where
  "analyzing_html =
     [0xA] @ lit ''            <span style='' @ [0x22]
     @ lit ''display: flex; align-items: center; gap: 8px;'' @ [0x22] @ lit ''>'' @ [0xA]
     @ lit ''                <span class='' @ [0x22] @ lit ''spinner'' @ [0x22]
     @ lit ''></span>'' @ [0xA] @ lit ''                Analyzing...'' @ [0xA]
     @ lit ''            </span>'' @ [0xA] @ lit ''        ''"

definition setButtonState :: "bool \<Rightarrow> page \<Rightarrow> page" where
  "setButtonState analyzing w =
     (if analyzing then w\<lparr>analyzeBtn_disabled := True, analyzeBtn_innerHTML := analyzing_html\<rparr>
      else w\<lparr>analyzeBtn_disabled := False, analyzeBtn_innerHTML := lit ''Analyze Text''\<rparr>)"

definition resetUI :: "page \<Rightarrow> page" where
  "resetUI w =
     w\<lparr>verdictText := [],
       resultBox_display := lit ''none'',
       categories := (\<lambda>k. map_option
          (\<lambda>b. b\<lparr>width := lit ''0%'', innerText := [], backgroundColor := lit ''#cbd5e1''\<rparr>)
          (categories w k))\<rparr>"

definition flagged_html :: js_string where
  "flagged_html =
     [0xA] @ lit ''            <span style='' @ [0x22]
     @ lit ''color: #ef4444; font-weight: 600;'' @ [0x22] @ lit ''>'' @ [0xA]
     @ lit ''                '' @ [0xD83D, 0xDEA8]
     @ lit '' Potentially Harmful Content Detected'' @ [0xA]
     @ lit ''            </span>'' @ [0xA] @ lit ''        ''"

definition safe_html :: js_string where
  "safe_html =
     [0xA] @ lit ''            <span style='' @ [0x22]
     @ lit ''color: #10b981; font-weight: 600;'' @ [0x22] @ lit ''>'' @ [0xA]
     @ lit ''                '' @ [0x2705] @ lit '' Content Appears Safe'' @ [0xA]
     @ lit ''            </span>'' @ [0xA] @ lit ''        ''"

definition displayVerdict :: "jsval \<Rightarrow> page \<Rightarrow> page" where
  "displayVerdict flagged w =
     w\<lparr>verdictText := (if truthy flagged then flagged_html else safe_html)\<rparr>"

text \<open>\<open>Math.round(score * 100)\<close>.\<close>

definition percentage_of :: "engine \<Rightarrow> jsval \<Rightarrow> number" where
  "percentage_of E score = Math_round (times100 (ToNumber E score))"

text \<open>
  The width is \<open>Math.max(percentage, 2)\<close> percent; for NaN and the infinities the
  assigned text (\<open>NaN%\<close>, \<open>Infinity%\<close>) is no CSS value and the style keeps the width
  it had.
\<close>

definition updateCategoryBar :: "engine \<Rightarrow> category \<Rightarrow> jsval \<Rightarrow> jsval \<Rightarrow> page \<Rightarrow> page" where
  "updateCategoryBar E categoryKey score flagged w =
     (case categories w categoryKey of
        None \<Rightarrow> w
      | Some element \<Rightarrow>
          let percentage = percentage_of E score;
              e1 = (case Math_max percentage 2 of
                      Fin a \<Rightarrow> element\<lparr>width := number_text E (Fin a) @ lit ''%''\<rparr>
                    | _ \<Rightarrow> element);
              e2 = (if truthy flagged then
                      e1\<lparr>innerText := [0x26A0, 0xFE0F] @ lit '' '' @ number_text E percentage
                                        @ lit ''% - FLAGGED'',
                         backgroundColor := lit ''#ef4444''\<rparr>
                    else if greater percentage 50 then
                      e1\<lparr>innerText := number_text E percentage @ lit ''% - High Risk'',
                         backgroundColor := lit ''#f59e0b''\<rparr>
                    else if greater percentage 20 then
                      e1\<lparr>innerText := number_text E percentage @ lit ''% - Medium'',
                         backgroundColor := lit ''#fbbf24''\<rparr>
                    else
                      e1\<lparr>innerText := number_text E percentage @ lit ''% - Low'',
                         backgroundColor := lit ''#10b981''\<rparr>)
          in w\<lparr>categories := (categories w)(categoryKey := Some e2)\<rparr>)"

subsection \<open>Error handling\<close>

definition showError :: "js_string \<Rightarrow> page \<Rightarrow> page" where
  "showError message w = w\<lparr>alerts := alerts w @ [message]\<rparr>"

definition timeout_tip :: js_string where
  "timeout_tip =
     [0xA, 0xA, 0xD83D, 0xDCA1]
     @ lit '' Tip: The backend might be sleeping (Render free tier). Please wait 30 seconds and try again.''"

definition connect_tip :: js_string where
  "connect_tip =
     [0xA, 0xA, 0xD83D, 0xDCA1]
     @ lit '' Tip: Check if the backend URL is correct and the server is running.''"

definition error_html :: "js_string \<Rightarrow> js_string" where
  "error_html message =
     [0xA] @ lit ''        <div style='' @ [0x22]
     @ lit ''color: #ef4444; white-space: pre-line;'' @ [0x22] @ lit ''>'' @ [0xA]
     @ lit ''            '' @ message @ [0xA] @ lit ''        </div>'' @ [0xA] @ lit ''    ''"

definition handleError :: "js_error \<Rightarrow> page \<Rightarrow> page" where
  "handleError error w =
     (let message = [0x26A0, 0xFE0F] @ lit '' Error: '' @ error_message error;
          message' =
            (if str_includes (error_message error) (lit ''timeout'') then message @ timeout_tip
             else if str_includes (error_message error) (lit ''connect'') then message @ connect_tip
             else message)
      in w\<lparr>verdictText := error_html message', resultBox_display := lit ''block''\<rparr>)"

subsection \<open>API call\<close>

definition timeout_message :: js_string where
  "timeout_message =
     lit ''Request timeout. The server took too long to respond. Please try again.''"

definition connect_message :: js_string where
  "connect_message =
     lit ''Cannot connect to server. Please check your internet connection.''"

text \<open>The \<open>catch\<close> block of \<open>analyzeText\<close>: what it throws for a caught error.\<close>

definition analyzeText_catch :: "js_error \<Rightarrow> js_error" where
  "analyzeText_catch error =
     (if error_name error = lit ''AbortError'' then new_Error timeout_message
      else if str_includes (error_message error) (lit ''Failed to fetch'')
        then new_Error connect_message
      else error)"

text \<open>
  The statement \<open>throw new Error(errorData.error || `Server error: ${response.status}`)\<close>:
  the error it throws, or the TypeError of the property read.
\<close>

definition server_error :: "engine \<Rightarrow> response \<Rightarrow> jsval \<Rightarrow> js_error" where
  "server_error E r errorData =
     (case get_prop E errorData (Name (lit ''error'')) of
        Inl e \<Rightarrow> e
      | Inr m \<Rightarrow>
          new_Error (if truthy m then ToString E m
                     else lit ''Server error: '' @ digits (status r)))"

definition analyzeText :: "engine \<Rightarrow> js_string \<Rightarrow> network \<Rightarrow> page \<Rightarrow> jsval promise \<times> page" where
  "analyzeText E text net w =
     (case fetch E REQUEST_TIMEOUT net of
        (aborted, Inl error) \<Rightarrow>
          (Rejected (analyzeText_catch error), send BACKEND_URL text aborted w)
      | (aborted, Inr r) \<Rightarrow>
          (if \<not> ok r then
             (case json r of
                BodyNever \<Rightarrow> Pending
              | BodyRejects _ \<Rightarrow> Rejected (analyzeText_catch (server_error E r (JObj [])))
              | BodyParsed errorData \<Rightarrow>
                  Rejected (analyzeText_catch (server_error E r errorData)))
           else
             (case json r of
                BodyNever \<Rightarrow> Pending
              | BodyRejects error \<Rightarrow> Rejected (analyzeText_catch error)
              | BodyParsed data \<Rightarrow> Fulfilled data),
           send BACKEND_URL text aborted w))"

subsection \<open>Response processing\<close>

text \<open>
  A synchronous function that may throw after it has changed the page returns the
  thrown error, if any, with the page as it left it. \<open>and_then\<close> runs the next
  statement unless the last one threw.
\<close>

type_synonym stmt = "page \<Rightarrow> js_error option \<times> page"

definition and_then :: "stmt \<Rightarrow> stmt \<Rightarrow> stmt" where
  "and_then a b w = (case a w of (Some e, w') \<Rightarrow> (Some e, w') | (None, w') \<Rightarrow> b w')"

definition do_stmt :: "(page \<Rightarrow> page) \<Rightarrow> stmt" where
  "do_stmt f w = (None, f w)"

text \<open>
  The statement \<open>updateCategoryBar(key, scores[name], categories[name])\<close>: the two
  arguments are read left to right, then the call is made.
\<close>

definition updateCategoryBar_stmt ::
  "engine \<Rightarrow> category \<Rightarrow> js_string \<Rightarrow> jsval \<Rightarrow> jsval \<Rightarrow> stmt" where
  "updateCategoryBar_stmt E categoryKey name scores cats w =
     (case get_prop E scores (Name name) of
        Inl e \<Rightarrow> (Some e, w)
      | Inr score \<Rightarrow>
          (case get_prop E cats (Name name) of
             Inl e \<Rightarrow> (Some e, w)
           | Inr flagged \<Rightarrow> (None, updateCategoryBar E categoryKey score flagged w)))"

text \<open>
  The guard \<open>!data || !data.results || !data.results[0]\<close>. A truthy value is neither
  \<open>undefined\<close> nor \<open>null\<close>, so the reads behind \<open>||\<close> do not throw.
\<close>

definition results_of :: "engine \<Rightarrow> jsval \<Rightarrow> jsval" where
  "results_of E data =
     (case get_prop E data (Name (lit ''results'')) of Inl _ \<Rightarrow> JUndefined | Inr v \<Rightarrow> v)"

definition result0_of :: "engine \<Rightarrow> jsval \<Rightarrow> jsval" where
  "result0_of E data =
     (case get_prop E (results_of E data) (Index 0) of Inl _ \<Rightarrow> JUndefined | Inr v \<Rightarrow> v)"

definition invalid_format :: "engine \<Rightarrow> jsval \<Rightarrow> bool" where
  "invalid_format E data =
     (\<not> truthy data \<or> \<not> truthy (results_of E data) \<or> \<not> truthy (result0_of E data))"

definition field_of :: "engine \<Rightarrow> jsval \<Rightarrow> string \<Rightarrow> jsval" where
  "field_of E v n = (case get_prop E v (Name (lit n)) of Inl _ \<Rightarrow> JUndefined | Inr x \<Rightarrow> x)"

definition processApiResponse :: "engine \<Rightarrow> jsval \<Rightarrow> stmt" where
  "processApiResponse E data w =
     (if invalid_format E data then
        (Some (new_Error (lit ''Invalid response format from server'')), w)
      else
        let result = result0_of E data;
            flagged = field_of E result ''flagged'';
            cats = field_of E result ''categories'';
            scores = field_of E result ''category_scores''
        in (and_then (do_stmt (displayVerdict flagged))
           (and_then (updateCategoryBar_stmt E hate (lit ''hate'') scores cats)
           (and_then (updateCategoryBar_stmt E harassment (lit ''harassment'') scores cats)
           (and_then (updateCategoryBar_stmt E selfHarm (lit ''self-harm'') scores cats)
           (and_then (updateCategoryBar_stmt E sexual (lit ''sexual'') scores cats)
           (and_then (updateCategoryBar_stmt E violence (lit ''violence'') scores cats)
                     (do_stmt (\<lambda>w. w\<lparr>resultBox_display := lit ''block''\<rparr>)))))))) w)"

subsection \<open>Event listeners\<close>

text \<open>The \<open>input\<close> listener of the text area.\<close>

definition inputText_input :: "page \<Rightarrow> page" where
  "inputText_input w =
     (if length (inputText_value w) > MAX_INPUT_LENGTH
      then w\<lparr>inputText_value := take MAX_INPUT_LENGTH (inputText_value w)\<rparr>
      else w)"

text \<open>
  The click handler. Its promise is pending for ever when \<open>analyzeText\<close> never
  settles; the page is then left as the last statement that ran left it.
\<close>

definition analysis_done :: "page \<Rightarrow> unit promise \<times> page" where
  "analysis_done w = (Fulfilled (), setButtonState False (showLoader False w))"

definition handleAnalyzeClick :: "engine \<Rightarrow> network \<Rightarrow> page \<Rightarrow> unit promise \<times> page" where
  "handleAnalyzeClick E net w =
     (let text = trim (inputText_value w) in
      if text = [] then
        (Fulfilled (), showError (lit ''Please enter some text to analyze.'') w)
      else if length text > MAX_INPUT_LENGTH then
        (Fulfilled (),
         showError (lit ''Text is too long. Maximum '' @ digits MAX_INPUT_LENGTH
                    @ lit '' characters allowed.'') w)
      else
        (case analyzeText E text net (setButtonState True (resetUI (showLoader True w))) of
           (Pending, w1) \<Rightarrow> (Pending, w1)
         | (Rejected error, w1) \<Rightarrow> analysis_done (handleError error w1)
         | (Fulfilled data, w1) \<Rightarrow>
             (case processApiResponse E data w1 of
                (Some error, w2) \<Rightarrow> analysis_done (handleError error w2)
              | (None, w2) \<Rightarrow> analysis_done w2)))"

section \<open>The older script (source file app.js)\<close>

definition app_showLoader :: "bool \<Rightarrow> page \<Rightarrow> page" where
  "app_showLoader show w = w\<lparr>loader_display := (if show then lit ''block'' else lit ''none'')\<rparr>"

definition app_resetUI :: "page \<Rightarrow> page" where
  "app_resetUI w =
     w\<lparr>verdictText := [],
       resultBox_display := lit ''none'',
       categories := (\<lambda>k. map_option (\<lambda>b. b\<lparr>width := lit ''0%'', innerText := []\<rparr>)
                                      (categories w k))\<rparr>"

definition updateCategory :: "category \<Rightarrow> jsval \<Rightarrow> page \<Rightarrow> page" where
  "updateCategory c v w =
     (case categories w c of
        None \<Rightarrow> w
      | Some b \<Rightarrow>
          w\<lparr>categories := (categories w)(c := Some
               (b\<lparr>width := (if truthy v then lit ''100%'' else lit ''5%''),
                  innerText := (if truthy v then lit ''Detected'' else lit ''Clean'')\<rparr>))\<rparr>)"

text \<open>The statement \<open>updateCategory(key, result.categories[name])\<close>.\<close>

definition updateCategory_stmt :: "engine \<Rightarrow> category \<Rightarrow> js_string \<Rightarrow> jsval \<Rightarrow> stmt" where
  "updateCategory_stmt E c name result w =
     (case get_prop E result (Name (lit ''categories'')) of
        Inl e \<Rightarrow> (Some e, w)
      | Inr cats \<Rightarrow>
          (case get_prop E cats (Name name) of
             Inl e \<Rightarrow> (Some e, w)
           | Inr v \<Rightarrow> (None, updateCategory c v w)))"

definition app_processApiResponse :: "engine \<Rightarrow> jsval \<Rightarrow> stmt" where
  "app_processApiResponse E data w =
     (case get_prop E data (Name (lit ''results'')) of
        Inl e \<Rightarrow> (Some e, w)
      | Inr results \<Rightarrow>
          if \<not> truthy results \<or> \<not> truthy (result0_of E data) then
            (None, w\<lparr>verdictText := lit ''Invalid response from server.''\<rparr>)
          else
            let result = result0_of E data;
                flagged = field_of E result ''flagged''
            in (and_then (do_stmt (\<lambda>w. w\<lparr>verdictText :=
                    (if truthy flagged
                     then [0xD83D, 0xDEA8] @ lit '' Hate / Toxic Content Detected''
                     else [0x2705] @ lit '' Content Appears Safe'')\<rparr>))
               (and_then (updateCategory_stmt E hate (lit ''hate'') result)
               (and_then (updateCategory_stmt E harassment (lit ''harassment'') result)
               (and_then (updateCategory_stmt E selfHarm (lit ''self-harm'') result)
               (and_then (updateCategory_stmt E sexual (lit ''sexual'') result)
               (and_then (updateCategory_stmt E violence (lit ''violence'') result)
                         (do_stmt (\<lambda>w. w\<lparr>resultBox_display := lit ''block''\<rparr>)))))))) w)"

text \<open>
  When \<open>fetch\<close> rejects, \<open>clearTimeout\<close> is never reached: if the timer has not
  fired yet it still does, at 10000 ms, and runs \<open>controller.abort()\<close> then. So an
  abort is counted on that path whichever came first.
\<close>

definition app_analyzeText :: "engine \<Rightarrow> js_string \<Rightarrow> network \<Rightarrow> page \<Rightarrow> jsval promise \<times> page" where
  "app_analyzeText E text net w =
     (case fetch E 10000 net of
        (aborted, Inl error) \<Rightarrow> (Rejected error, send BACKEND_URL text True w)
      | (aborted, Inr r) \<Rightarrow>
          (if \<not> ok r then Rejected (new_Error (lit ''Backend request failed''))
           else
             (case json r of
                BodyNever \<Rightarrow> Pending
              | BodyRejects error \<Rightarrow> Rejected error
              | BodyParsed data \<Rightarrow> Fulfilled data),
           send BACKEND_URL text aborted w))"

definition app_error_text :: js_string where
  "app_error_text = [0x26A0, 0xFE0F] @ lit '' Error analyzing text. Try again.''"

definition app_done :: "page \<Rightarrow> unit promise \<times> page" where
  "app_done w = (Fulfilled (), app_showLoader False w)"

definition app_click :: "engine \<Rightarrow> network \<Rightarrow> page \<Rightarrow> unit promise \<times> page" where
  "app_click E net w =
     (let text = trim (inputText_value w) in
      if text = [] then
        (Fulfilled (), w\<lparr>alerts := alerts w @ [lit ''Please enter some text to analyze.'']\<rparr>)
      else
        (case app_analyzeText E text net (app_resetUI (app_showLoader True w)) of
           (Pending, w1) \<Rightarrow> (Pending, w1)
         | (Rejected error, w1) \<Rightarrow> app_done (w1\<lparr>verdictText := app_error_text\<rparr>)
         | (Fulfilled data, w1) \<Rightarrow>
             (case app_processApiResponse E data w1 of
                (Some error, w2) \<Rightarrow> app_done (w2\<lparr>verdictText := app_error_text\<rparr>)
              | (None, w2) \<Rightarrow> app_done w2)))"

section \<open>Predicates and sample data for the properties\<close>

text \<open>No headers and no transport failure before \<open>ms\<close> milliseconds have passed.\<close>

definition no_response_within :: "nat \<Rightarrow> network \<Rightarrow> bool" where
  "no_response_within ms net =
     (case net of Responds t r \<Rightarrow> ms < t | Fails t e \<Rightarrow> ms < t | Silent \<Rightarrow> True)"

text \<open>The headers arrive before the timeout and the body never does.\<close>

definition body_stalls :: "network \<Rightarrow> bool" where
  "body_stalls net =
     (case net of Responds t r \<Rightarrow> t < REQUEST_TIMEOUT \<and> json r = BodyNever | _ \<Rightarrow> False)"

text \<open>The text area passes both checks of the click handler.\<close>

definition valid_input :: "page \<Rightarrow> bool" where
  "valid_input w =
     (trim (inputText_value w) \<noteq> [] \<and> length (trim (inputText_value w)) \<le> MAX_INPUT_LENGTH)"

text \<open>The page after the three statements that start an analysis.\<close>

definition analysis_started :: "page \<Rightarrow> page" where
  "analysis_started w = setButtonState True (resetUI (showLoader True w))"

text \<open>
  An engine, a page and responses for the concrete examples. The examples print no
  fraction and convert no string to a number, so the first two answers of this engine
  are never asked for.
\<close>

definition sample_engine :: engine where
  "sample_engine =
     \<lparr>NumberToString = (\<lambda>r. lit ''NaN''),
      StringToNumber = (\<lambda>s. NaN),
      TypeErrorMessage =
        (\<lambda>v k. lit ''Cannot read properties of ''
                @ (case v of JNull \<Rightarrow> lit ''null'' | _ \<Rightarrow> lit ''undefined'')),
      AbortErrorMessage = lit ''The user aborted a request.''\<rparr>"

definition sample_bar :: bar where
  "sample_bar = \<lparr>width = lit ''0%'', innerText = [], backgroundColor = lit ''#cbd5e1''\<rparr>"

definition sample_page :: page where
  "sample_page =
     \<lparr>inputText_value = lit ''  some text to check  '',
      analyzeBtn_disabled = False,
      analyzeBtn_innerHTML = lit ''Analyze Text'',
      loader_display = lit ''none'',
      resultBox_display = lit ''none'',
      verdictText = [],
      categories = (\<lambda>k. Some sample_bar),
      alerts = [],
      requests = [],
      aborts = 0\<rparr>"

text \<open>
  Responses with a non-success status: 500 without a body, with a JSON object as body,
  with the body \<open>null\<close> and with a body that never arrives; and 503 with an \<open>error\<close>
  that speaks of a failed fetch.
\<close>

definition server_down :: response where
  "server_down = \<lparr>status = 500, json = BodyRejects (Thrown (lit ''SyntaxError'') (lit ''Unexpected end of JSON input''))\<rparr>"





definition sample_body :: jsval where
  "sample_body =
     JObj [(lit ''results'', JArr [JObj
       [(lit ''flagged'', JBool True),
        (lit ''categories'', JObj
           [(lit ''hate'', JBool True), (lit ''harassment'', JBool False),
            (lit ''self-harm'', JBool False), (lit ''sexual'', JBool False),
            (lit ''violence'', JBool False)]),
        (lit ''category_scores'', JObj
           [(lit ''hate'', JNum (92 / 100)), (lit ''harassment'', JNum (31 / 100)),
            (lit ''self-harm'', JNum (1 / 100)), (lit ''sexual'', JNum (2 / 100)),
            (lit ''violence'', JNum (12 / 100))])]])]"

text \<open>A body whose \<open>results[0]\<close> has no \<open>flagged\<close>.\<close>

definition unflagged_body :: jsval where
  "unflagged_body =
     JObj [(lit ''results'', JArr [JObj
       [(lit ''categories'', JObj
           [(lit ''hate'', JBool True), (lit ''harassment'', JBool False),
            (lit ''self-harm'', JBool False), (lit ''sexual'', JBool False),
            (lit ''violence'', JBool False)]),
        (lit ''category_scores'', JObj
           [(lit ''hate'', JNum (92 / 100)), (lit ''harassment'', JNum (31 / 100)),
            (lit ''self-harm'', JNum (1 / 100)), (lit ''sexual'', JNum (2 / 100)),
            (lit ''violence'', JNum (12 / 100))])]])]"

text \<open>Texts of 2001 and of 2000 letters \<open>a\<close>.\<close>

definition long_text :: js_string where
  "long_text = replicate 2001 0x61"

definition full_text :: js_string where
  "full_text = replicate 2000 0x61"

text \<open>The response of claim C7; \<open>cs\<close> and \<open>ss\<close> are the entries it elides.\<close>

definition claimed_response :: "(js_string \<times> jsval) list \<Rightarrow> (js_string \<times> jsval) list \<Rightarrow> jsval" where
  "claimed_response cs ss =
     JObj [(lit ''results'', JArr [JObj
       [(lit ''flagged'', JBool True),
        (lit ''categories'', JObj ((lit ''hate'', JBool True) # cs)),
        (lit ''category_scores'', JObj ((lit ''hate'', JNum (92 / 100)) # ss))]])]"

text \<open>A failed connection as Chromium reports it.\<close>

definition offline :: network where
  "offline = Fails 0 (Thrown (lit ''TypeError'') (lit ''Failed to fetch''))"

text \<open>The sample body after 45 seconds, headers that no body follows, and the sample body after 120 milliseconds.\<close>

definition late_reply :: network where
  "late_reply = Responds 45000 \<lparr>status = 200, json = BodyParsed sample_body\<rparr>"

definition stalled_reply :: network where
  "stalled_reply = Responds 120 \<lparr>status = 200, json = BodyNever\<rparr>"

definition prompt_reply :: network where
  "prompt_reply = Responds 120 \<lparr>status = 200, json = BodyParsed sample_body\<rparr>"

section \<open>Auxiliary facts\<close>

declare str_includes.simps [simp del]

declare digits.simps [simp del]

lemma trim_empty_iff: "trim s = [] \<longleftrightarrow> (\<forall>c\<in>set s. isWhiteSpace c)"
proof
  assume "trim s = []"
  then have a: "\<forall>x\<in>set (dropWhile isWhiteSpace s). isWhiteSpace x"
    by (simp add: trim_def dropWhile_eq_Nil_conv)
  have "dropWhile isWhiteSpace s = []"
  proof (rule ccontr)
    assume n: "dropWhile isWhiteSpace s \<noteq> []"
    then have "\<not> isWhiteSpace (hd (dropWhile isWhiteSpace s))" by (rule hd_dropWhile)
    moreover have "hd (dropWhile isWhiteSpace s) \<in> set (dropWhile isWhiteSpace s)"
      using n by simp
    ultimately show False using a by blast
  qed
  then show "\<forall>c\<in>set s. isWhiteSpace c" by (simp add: dropWhile_eq_Nil_conv)
next
  assume "\<forall>c\<in>set s. isWhiteSpace c"
  then have h: "dropWhile isWhiteSpace s = []" by (simp add: dropWhile_eq_Nil_conv)
  show "trim s = []" unfolding trim_def h by simp
qed

lemma str_includes_hd: "str_includes s p \<Longrightarrow> p \<noteq> [] \<Longrightarrow> hd p \<in> set s"
proof (induction s)
  case Nil
  then show ?case by (subst (asm) str_includes.simps) (auto split: if_splits)
next
  case (Cons a s)
  from Cons.prems(1) have "take (length p) (a # s) = p \<or> str_includes s p"
    by (subst (asm) str_includes.simps) (auto split: if_splits)
  then show ?case
  proof
    assume "take (length p) (a # s) = p"
    with Cons.prems(2) show ?thesis by (cases p) auto
  next
    assume "str_includes s p"
    with Cons show ?thesis by simp
  qed
qed

lemma digits_set: "set (digits n) \<subseteq> {0x30, 0x31, 0x32, 0x33, 0x34, 0x35, 0x36, 0x37, 0x38, 0x39}"
proof (induction n rule: digits.induct)
  case (1 n)
  have d: "\<And>k::nat. k < 10 \<Longrightarrow> (0x30 + of_nat k :: 16 word) \<in> {0x30, 0x31, 0x32, 0x33, 0x34, 0x35, 0x36, 0x37, 0x38, 0x39}"
  proof -
    fix k :: nat assume "k < 10"
    then have "k \<in> {0,1,2,3,4,5,6,7,8,9}" by auto
    then show "(0x30 + of_nat k :: 16 word) \<in> {0x30, 0x31, 0x32, 0x33, 0x34, 0x35, 0x36, 0x37, 0x38, 0x39}"
      by auto
  qed
  show ?case
  proof (cases "n < 10")
    case True
    then show ?thesis using d[of n] by (subst digits.simps) simp
  next
    case False
    have "n mod 10 < 10" by simp
    with False 1 d[of "n mod 10"] show ?thesis by (subst digits.simps) auto
  qed
qed

lemma server_error_not_fetch: "\<not> str_includes (lit ''Server error: '' @ digits n) (lit ''Failed to fetch'')"
proof
  assume "str_includes (lit ''Server error: '' @ digits n) (lit ''Failed to fetch'')"
  then have "hd (lit ''Failed to fetch'') \<in> set (lit ''Server error: '' @ digits n)"
    by (rule str_includes_hd) (simp add: lit_def)
  then have "(0x46 :: 16 word) \<in> set (lit ''Server error: '') \<union> set (digits n)"
    by (simp add: lit_def)
  then show False using digits_set[of n] by (auto simp: lit_def)
qed

lemma fetch_late: "no_response_within ms net \<Longrightarrow>
  fetch E ms net = (True, Inl (Thrown (lit ''AbortError'') (AbortErrorMessage E)))"
  by (auto simp: no_response_within_def fetch_def split: network.splits)

lemma catch_abort: "analyzeText_catch (Thrown (lit ''AbortError'') m) = new_Error timeout_message"
  by (simp add: analyzeText_catch_def)

lemma analyzeText_late: "no_response_within REQUEST_TIMEOUT net \<Longrightarrow>
  analyzeText E text net w = (Rejected (new_Error timeout_message), send BACKEND_URL text True w)"
  by (simp add: analyzeText_def fetch_late catch_abort)

lemma handle_valid: "valid_input w \<Longrightarrow> handleAnalyzeClick E net w =
   (case analyzeText E (trim (inputText_value w)) net (analysis_started w) of
           (Pending, w1) \<Rightarrow> (Pending, w1)
         | (Rejected error, w1) \<Rightarrow> analysis_done (handleError error w1)
         | (Fulfilled data, w1) \<Rightarrow>
             (case processApiResponse E data w1 of
                (Some error, w2) \<Rightarrow> analysis_done (handleError error w2)
              | (None, w2) \<Rightarrow> analysis_done w2))"
  by (simp add: valid_input_def handleAnalyzeClick_def Let_def analysis_started_def)

lemma analyzeText_pending: "(fst (analyzeText E text net w) = Pending) = body_stalls net"
  by (auto simp: analyzeText_def fetch_def body_stalls_def split: network.splits body_read.splits)

lemma analysis_done_fields:
  "fst (analysis_done w) = Fulfilled ()"
  "loader_display (snd (analysis_done w)) = lit ''none''"
  "\<not> analyzeBtn_disabled (snd (analysis_done w))"
  "analyzeBtn_innerHTML (snd (analysis_done w)) = lit ''Analyze Text''"
  by (simp_all add: analysis_done_def setButtonState_def showLoader_def)

lemma fetch_in_time:
  "t < ms \<Longrightarrow> fetch E ms (Responds t r) = (False, Inr r)"
  "t < ms \<Longrightarrow> fetch E ms (Fails t e) = (False, Inl e)"
  by (simp_all add: fetch_def)

lemma analyzeText_fulfilled:
  "t < REQUEST_TIMEOUT \<Longrightarrow> ok r \<Longrightarrow> json r = BodyParsed d \<Longrightarrow>
   analyzeText E text (Responds t r) w = (Fulfilled d, send BACKEND_URL text False w)"
  by (simp add: analyzeText_def fetch_in_time)

lemma analyzeText_not_ok:
  "t < REQUEST_TIMEOUT \<Longrightarrow> \<not> ok r \<Longrightarrow>
   analyzeText E text (Responds t r) w =
     (case json r of
        BodyNever \<Rightarrow> Pending
      | BodyRejects _ \<Rightarrow> Rejected (analyzeText_catch (server_error E r (JObj [])))
      | BodyParsed errorData \<Rightarrow> Rejected (analyzeText_catch (server_error E r errorData)),
      send BACKEND_URL text False w)"
  by (simp add: analyzeText_def fetch_in_time)

lemma analyzeText_fails:
  "t < REQUEST_TIMEOUT \<Longrightarrow>
   analyzeText E text (Fails t e) w = (Rejected (analyzeText_catch e), send BACKEND_URL text False w)"
  by (simp add: analyzeText_def fetch_in_time)

lemma catch_generic:
  "analyzeText_catch (new_Error (lit ''Server error: '' @ digits n)) =
     new_Error (lit ''Server error: '' @ digits n)"
proof -
  have "lit ''Error'' \<noteq> lit ''AbortError''" by (simp add: lit_def)
  then show ?thesis
    by (simp add: analyzeText_catch_def new_Error_def server_error_not_fetch)
qed








lemma get_prop_error_name: "get_prop E v k = Inl e \<Longrightarrow> error_name e = lit ''TypeError''"
  by (induction E v k rule: get_prop.induct) auto

lemma updateCategoryBar_frame:
  "verdictText (updateCategoryBar E k s f w) = verdictText w"
  "resultBox_display (updateCategoryBar E k s f w) = resultBox_display w"
  "requests (updateCategoryBar E k s f w) = requests w"
  "alerts (updateCategoryBar E k s f w) = alerts w"
  "aborts (updateCategoryBar E k s f w) = aborts w"
  "k' \<noteq> k \<Longrightarrow> categories (updateCategoryBar E k s f w) k' = categories w k'"
  by (simp_all add: updateCategoryBar_def Let_def split: option.splits)

lemma stmt_error_name:
  "updateCategoryBar_stmt E k n scores cats w = (Some e, w') \<Longrightarrow> error_name e = lit ''TypeError''"
  by (auto simp: updateCategoryBar_stmt_def split: sum.splits dest: get_prop_error_name)

lemma and_then_error:
  assumes "and_then a b w = (Some e, w')"
  shows "(\<exists>w1. a w = (Some e, w')) \<or> (\<exists>w1. a w = (None, w1) \<and> b w1 = (Some e, w'))"
  using assms by (cases "a w") (auto simp: and_then_def split: option.splits)

lemma valid_error_name:
  assumes "\<not> invalid_format E data" and "processApiResponse E data w = (Some e, w')"
  shows "error_name e = lit ''TypeError''"
proof -
  let ?r = "result0_of E data"
  let ?s = "field_of E ?r ''category_scores''"
  let ?c = "field_of E ?r ''categories''"
  from assms have ch: "and_then (do_stmt (displayVerdict (field_of E ?r ''flagged'')))
           (and_then (updateCategoryBar_stmt E hate (lit ''hate'') ?s ?c)
           (and_then (updateCategoryBar_stmt E harassment (lit ''harassment'') ?s ?c)
           (and_then (updateCategoryBar_stmt E selfHarm (lit ''self-harm'') ?s ?c)
           (and_then (updateCategoryBar_stmt E sexual (lit ''sexual'') ?s ?c)
           (and_then (updateCategoryBar_stmt E violence (lit ''violence'') ?s ?c)
                     (do_stmt (\<lambda>w. w\<lparr>resultBox_display := lit ''block''\<rparr>))))))) w = (Some e, w')"
    by (simp add: processApiResponse_def Let_def)
  have nd: "\<And>f u u'. do_stmt f u \<noteq> (Some e, u')" by (simp add: do_stmt_def)
  from ch show ?thesis
    by (auto dest!: and_then_error simp: nd dest: stmt_error_name)
qed

lemma stmt_objects:
  "updateCategoryBar_stmt E k n (JObj ss) (JObj cs) w =
     (None, updateCategoryBar E k
        (case map_of ss n of None \<Rightarrow> JUndefined | Some v \<Rightarrow> v)
        (case map_of cs n of None \<Rightarrow> JUndefined | Some v \<Rightarrow> v) w)"
  by (simp add: updateCategoryBar_stmt_def)

lemma processApiResponse_objects:
  assumes "\<not> invalid_format E data"
    and "field_of E (result0_of E data) ''category_scores'' = JObj ss"
    and "field_of E (result0_of E data) ''categories'' = JObj cs"
  shows "fst (processApiResponse E data w) = None"
    and "verdictText (snd (processApiResponse E data w)) =
           (if truthy (field_of E (result0_of E data) ''flagged'') then flagged_html else safe_html)"
    and "resultBox_display (snd (processApiResponse E data w)) = lit ''block''"
    and "categories (snd (processApiResponse E data w)) hate =
           categories (updateCategoryBar E hate
             (case map_of ss (lit ''hate'') of None \<Rightarrow> JUndefined | Some v \<Rightarrow> v)
             (case map_of cs (lit ''hate'') of None \<Rightarrow> JUndefined | Some v \<Rightarrow> v)
             (displayVerdict (field_of E (result0_of E data) ''flagged'') w)) hate"
  using assms
  by (simp_all add: processApiResponse_def Let_def and_then_def do_stmt_def stmt_objects
        updateCategoryBar_frame displayVerdict_def)

lemma too_long_text:
  "lit ''Text is too long. Maximum '' @ digits MAX_INPUT_LENGTH @ lit '' characters allowed.''
     = lit ''Text is too long. Maximum 2000 characters allowed.''"
proof -
  have d: "digits MAX_INPUT_LENGTH = lit ''2000''" unfolding MAX_INPUT_LENGTH_def by code_simp
  show ?thesis unfolding d by (simp add: lit_def)
qed

lemma handle_blank:
  "trim (inputText_value w) = [] \<Longrightarrow>
   handleAnalyzeClick E net w =
     (Fulfilled (), showError (lit ''Please enter some text to analyze.'') w)"
  by (simp add: handleAnalyzeClick_def)

lemma handle_too_long:
  "MAX_INPUT_LENGTH < length (trim (inputText_value w)) \<Longrightarrow>
   handleAnalyzeClick E net w =
     (Fulfilled (), showError (lit ''Text is too long. Maximum 2000 characters allowed.'') w)"
  by (auto simp: handleAnalyzeClick_def Let_def too_long_text)

lemma trim_replicate: "\<not> isWhiteSpace a \<Longrightarrow> trim (replicate n a) = replicate n a"
proof -
  assume a: "\<not> isWhiteSpace a"
  have "dropWhile isWhiteSpace (replicate n a) = replicate n a" for n
    using a by (cases n) simp_all
  then show ?thesis by (simp add: trim_def)
qed

lemma and_then_keeps:
  assumes "\<And>w. f (snd (a w)) = f w" and "\<And>w. f (snd (b w)) = f w"
  shows "f (snd (and_then a b w)) = f w"
proof (cases "a w")
  case (Pair x w1)
  have 1: "f w1 = f w" using assms(1) [of w] Pair by simp
  show ?thesis
  proof (cases x)
    case None
    with Pair have "and_then a b w = b w1" by (simp add: and_then_def)
    with assms(2) [of w1] 1 show ?thesis by simp
  next
    case (Some e)
    with Pair have "and_then a b w = (Some e, w1)" by (simp add: and_then_def)
    with 1 show ?thesis by simp
  qed
qed

lemma stmt_keeps_requests:
  "requests (snd (updateCategoryBar_stmt E k n s c w)) = requests w"
  by (simp add: updateCategoryBar_stmt_def updateCategoryBar_frame split: sum.splits)

lemma processApiResponse_requests: "requests (snd (processApiResponse E d w)) = requests w"
  unfolding processApiResponse_def Let_def
  by (simp add: and_then_keeps stmt_keeps_requests do_stmt_def displayVerdict_def)

lemma analysis_done_requests: "requests (snd (analysis_done w)) = requests w"
  by (simp add: analysis_done_def setButtonState_def showLoader_def)

lemma handleError_requests: "requests (handleError e w) = requests w"
  by (simp add: handleError_def Let_def)

lemma analysis_started_requests: "requests (analysis_started w) = requests w"
  by (simp add: analysis_started_def setButtonState_def showLoader_def resetUI_def)

lemma analyzeText_requests:
  "requests (snd (analyzeText E text net w)) = requests w @
     [\<lparr>url = BACKEND_URL, http_method = lit ''POST'', content_type = lit ''application/json'',
       body = JSON_stringify_text text\<rparr>]"
  by (simp add: analyzeText_def send_def split: prod.splits sum.splits)

lemma handle_valid_requests:
  assumes "valid_input w"
  shows "requests (snd (handleAnalyzeClick E net w)) = requests w @
     [\<lparr>url = BACKEND_URL, http_method = lit ''POST'', content_type = lit ''application/json'',
       body = JSON_stringify_text (trim (inputText_value w))\<rparr>]"
proof (cases "analyzeText E (trim (inputText_value w)) net (analysis_started w)")
  case (Pair p w1)
  have r: "requests w1 = requests w @
     [\<lparr>url = BACKEND_URL, http_method = lit ''POST'', content_type = lit ''application/json'',
       body = JSON_stringify_text (trim (inputText_value w))\<rparr>]"
    using analyzeText_requests [of E "trim (inputText_value w)" net "analysis_started w"] Pair
    by (simp add: analysis_started_requests)
  show ?thesis
  proof (cases p)
    case Pending
    with Pair r assms show ?thesis by (simp add: handle_valid)
  next
    case (Rejected e)
    with Pair r assms show ?thesis
      by (simp add: handle_valid analysis_done_requests handleError_requests)
  next
    case (Fulfilled d)
    obtain x w2 where p: "processApiResponse E d w1 = (x, w2)" by (cases "processApiResponse E d w1")
    then have "requests w2 = requests w1" using processApiResponse_requests [of E d w1] by simp
    with Fulfilled Pair r assms p show ?thesis
      by (cases x) (simp_all add: handle_valid analysis_done_requests handleError_requests)
  qed
qed

lemma digits_92: "digits 92 = lit ''92''" by code_simp

lemma nearest_92: "nearest \<bar>92 / 100\<bar> = 8286623314361713 / 9007199254740992"
  by code_simp

lemma nearest_92_100:
  "nearest \<bar>8286623314361713 / 9007199254740992 * 100\<bar> = 92"
  by code_simp

lemma below_overflow:
  "\<not> pow2 1024 \<le> 8286623314361713 / 9007199254740992" "\<not> pow2 1024 \<le> 92"
  by (simp_all add: pow2_def)

lemma to_double_92: "to_double (92 / 100) = Fin (8286623314361713 / 9007199254740992)"
proof -
  have "to_double (92 / 100) =
          (if (92 / 100 :: rat) = 0 then Fin 0
           else if pow2 1024 \<le> 8286623314361713 / 9007199254740992
             then (if (0 :: rat) < 92 / 100 then PosInf else NegInf)
             else Fin (if (0 :: rat) < 92 / 100 then 8286623314361713 / 9007199254740992
                       else - (8286623314361713 / 9007199254740992)))"
    unfolding to_double_def Let_def nearest_92 ..
  also have "\<dots> = Fin (8286623314361713 / 9007199254740992)"
    using below_overflow(1) by simp
  finally show ?thesis .
qed

lemma to_double_92_100:
  "to_double (8286623314361713 / 9007199254740992 * 100) = Fin 92"
proof -
  have "to_double (8286623314361713 / 9007199254740992 * 100) =
          (if (8286623314361713 / 9007199254740992 * 100 :: rat) = 0 then Fin 0
           else if pow2 1024 \<le> 92
             then (if (0 :: rat) < 8286623314361713 / 9007199254740992 * 100 then PosInf else NegInf)
             else Fin (if (0 :: rat) < 8286623314361713 / 9007199254740992 * 100 then 92 else - 92))"
    unfolding to_double_def Let_def nearest_92_100 ..
  also have "\<dots> = Fin 92"
    using below_overflow(2) by simp
  finally show ?thesis .
qed

lemma percentage_92: "percentage_of E (JNum (92 / 100)) = Fin 92"
proof -
  have "percentage_of E (JNum (92 / 100)) =
          Math_round (times100 (Fin (8286623314361713 / 9007199254740992)))"
    unfolding percentage_of_def ToNumber.simps to_double_92 ..
  also have "\<dots> = Math_round (to_double (8286623314361713 / 9007199254740992 * 100))"
    unfolding times100_def number.case ..
  also have "\<dots> = Fin 92"
    unfolding to_double_92_100 by (simp add: Math_round_def floor_eq_iff)
  finally show ?thesis .
qed

lemma number_text_92: "number_text E (Fin 92) = lit ''92''"
  by (simp add: number_text_def int_text_def digits_92)

lemma bar_flagged:
  "percentage_of E score = Fin p \<Longrightarrow> truthy flagged \<Longrightarrow>
   categories (updateCategoryBar E k score flagged w) k =
     map_option (\<lambda>b. b\<lparr>width := number_text E (Fin (max p 2)) @ lit ''%'',
                        innerText := [0x26A0, 0xFE0F] @ lit '' '' @ number_text E (Fin p)
                                     @ lit ''% - FLAGGED'',
                        backgroundColor := lit ''#ef4444''\<rparr>) (categories w k)"
  by (simp add: updateCategoryBar_def Math_max_def Let_def split: option.splits)

lemma hate_bar_92:
  "categories (updateCategoryBar E hate (JNum (92 / 100)) (JBool True) w) hate =
     map_option (\<lambda>b. b\<lparr>width := lit ''92%'',
                        innerText := [0x26A0, 0xFE0F] @ lit '' 92% - FLAGGED'',
                        backgroundColor := lit ''#ef4444''\<rparr>) (categories w hate)"
proof -
  have "categories (updateCategoryBar E hate (JNum (92 / 100)) (JBool True) w) hate =
     map_option (\<lambda>b. b\<lparr>width := number_text E (Fin (max 92 2)) @ lit ''%'',
                        innerText := [0x26A0, 0xFE0F] @ lit '' '' @ number_text E (Fin 92)
                                     @ lit ''% - FLAGGED'',
                        backgroundColor := lit ''#ef4444''\<rparr>) (categories w hate)"
    by (rule bar_flagged [OF percentage_92]) simp
  then show ?thesis by (simp add: number_text_92 lit_def)
qed

lemma analysis_done_verdict: "verdictText (snd (analysis_done w)) = verdictText w"
  by (simp add: analysis_done_def setButtonState_def showLoader_def)

lemma handleError_verdict:
  "verdictText (handleError e w) =
     error_html ([0x26A0, 0xFE0F] @ lit '' Error: '' @ error_message e @
       (if str_includes (error_message e) (lit ''timeout'') then timeout_tip
        else if str_includes (error_message e) (lit ''connect'') then connect_tip else []))"
  by (simp add: handleError_def Let_def)

lemma handle_rejected:
  "valid_input w \<Longrightarrow>
   fst (analyzeText E (trim (inputText_value w)) net (analysis_started w)) = Rejected e \<Longrightarrow>
   verdictText (snd (handleAnalyzeClick E net w)) =
     error_html ([0x26A0, 0xFE0F] @ lit '' Error: '' @ error_message e @
       (if str_includes (error_message e) (lit ''timeout'') then timeout_tip
        else if str_includes (error_message e) (lit ''connect'') then connect_tip else []))"
  by (cases "analyzeText E (trim (inputText_value w)) net (analysis_started w)")
     (simp add: handle_valid analysis_done_verdict handleError_verdict)

lemma app_rejected:
  "trim (inputText_value w) \<noteq> [] \<Longrightarrow>
   fst (app_analyzeText E (trim (inputText_value w)) net (app_resetUI (app_showLoader True w)))
     = Rejected e \<Longrightarrow>
   verdictText (snd (app_click E net w)) = app_error_text"
  by (cases "app_analyzeText E (trim (inputText_value w)) net (app_resetUI (app_showLoader True w))")
     (simp add: app_click_def Let_def app_done_def app_showLoader_def)

lemma app_analyzeText_late:
  "no_response_within 10000 net \<Longrightarrow>
   app_analyzeText E text net w =
     (Rejected (Thrown (lit ''AbortError'') (AbortErrorMessage E)), send BACKEND_URL text True w)"
  by (simp add: app_analyzeText_def fetch_late)

lemma app_analyzeText_in_time:
  "t < 10000 \<Longrightarrow>
   app_analyzeText E text (Responds t r) w =
     (if \<not> ok r then Rejected (new_Error (lit ''Backend request failed''))
      else (case json r of BodyNever \<Rightarrow> Pending | BodyRejects error \<Rightarrow> Rejected error
            | BodyParsed data \<Rightarrow> Fulfilled data),
      send BACKEND_URL text False w)"
  "t < 10000 \<Longrightarrow>
   app_analyzeText E text (Fails t e) w = (Rejected e, send BACKEND_URL text True w)"
  by (simp_all add: app_analyzeText_def fetch_in_time)

lemma message_kinds:
  "str_includes timeout_message (lit ''timeout'')"
  "\<not> str_includes connect_message (lit ''timeout'')"
  "str_includes connect_message (lit ''connect'')"
  "\<not> str_includes (lit ''Server error: 500'') (lit ''timeout'')"
  "\<not> str_includes (lit ''Server error: 500'') (lit ''connect'')"
  "str_includes (lit ''Failed to fetch'') (lit ''Failed to fetch'')"
  unfolding timeout_message_def connect_message_def by code_simp+

lemma lit_append: "lit a @ lit b = lit (a @ b)"
  by (simp add: lit_def)

lemma digits_500: "digits 500 = lit ''500''" by code_simp

lemma sample_valid: "valid_input sample_page"
  by code_simp

lemma error_html_inject: "(error_html a = error_html b) = (a = b)"
  by (simp add: error_html_def)

section \<open>C1: a request without response is aborted and fails with the timeout error\<close>

text \<open>
  Claim C1. \<open>REQUEST_TIMEOUT\<close> is 30000 ms. If the endpoint has sent no response when
  that timer fires (nothing ever arrives, or the headers or a transport failure come
  later), \<open>analyzeText\<close> aborts the request, which adds one to the count of aborts, and
  rejects with the error \<open>Request timeout. The server took too long to respond. Please try
  again.\<close> The outcome is the one of a network that stays silent for ever, whatever the
  late response holds, and on a valid input the click handler goes from the rejection to
  \<open>handleError\<close> and the completion steps without calling \<open>processApiResponse\<close>.
\<close>

theorem analyzeText_timeout:
  assumes "no_response_within REQUEST_TIMEOUT net"
  shows "REQUEST_TIMEOUT = 30000
       \<and> analyzeText E text net w =
           (Rejected (new_Error timeout_message), send BACKEND_URL text True w)
       \<and> aborts (snd (analyzeText E text net w)) = aborts w + 1
       \<and> analyzeText E text net w = analyzeText E text Silent w
       \<and> (valid_input w \<longrightarrow>
            handleAnalyzeClick E net w =
              analysis_done (handleError (new_Error timeout_message)
                (send BACKEND_URL (trim (inputText_value w)) True (analysis_started w))))"
proof -
  have s: "no_response_within REQUEST_TIMEOUT Silent" by (simp add: no_response_within_def)
  have "REQUEST_TIMEOUT = 30000" by (simp add: REQUEST_TIMEOUT_def)
  moreover have "analyzeText E text net w =
           (Rejected (new_Error timeout_message), send BACKEND_URL text True w)
       \<and> aborts (snd (analyzeText E text net w)) = aborts w + 1
       \<and> analyzeText E text net w = analyzeText E text Silent w
       \<and> (valid_input w \<longrightarrow>
            handleAnalyzeClick E net w =
              analysis_done (handleError (new_Error timeout_message)
                (send BACKEND_URL (trim (inputText_value w)) True (analysis_started w))))"
    using assms by (simp add: analyzeText_late s handle_valid send_def)
  ultimately show ?thesis by blast
qed

text \<open>
  A response that arrives after 45 seconds, for the sample page.
\<close>

theorem analyzeText_timeout_witness:
  "no_response_within REQUEST_TIMEOUT late_reply \<and> valid_input sample_page
   \<and> analyzeText sample_engine (lit ''some text'') late_reply sample_page =
       (Rejected (new_Error timeout_message), send BACKEND_URL (lit ''some text'') True sample_page)
   \<and> handleAnalyzeClick sample_engine late_reply sample_page =
       analysis_done (handleError (new_Error timeout_message)
         (send BACKEND_URL (trim (inputText_value sample_page)) True (analysis_started sample_page)))"
proof -
  have h: "no_response_within REQUEST_TIMEOUT late_reply"
    by (simp add: no_response_within_def late_reply_def REQUEST_TIMEOUT_def)
  from analyzeText_timeout [OF h, of sample_engine "lit ''some text''" sample_page]
       analyzeText_timeout [OF h, of sample_engine "trim (inputText_value sample_page)" sample_page]
       h sample_valid
  show ?thesis by simp
qed

section \<open>C2: a success response of the wrong shape\<close>

text \<open>
  Claim C2, as the code has it. \<open>processApiResponse\<close> throws
  \<open>Invalid response format from server\<close>, before it changes the page, exactly when its
  guard fails: the parsed body is falsy, or its \<open>results\<close> is missing or falsy, or
  \<open>results[0]\<close> is missing or falsy. A body that is an object without \<open>results\<close> is
  such a body. For a response with a success status that arrives in time with such a
  body, the click handler shows that error and completes. The guard does not look at
  \<open>flagged\<close>, \<open>categories\<close> or \<open>category_scores\<close> inside \<open>results[0]\<close>.
\<close>

theorem processApiResponse_invalid_format:
  "(invalid_format E data \<longrightarrow>
      processApiResponse E data w =
        (Some (new_Error (lit ''Invalid response format from server'')), w))
   \<and> (\<not> invalid_format E data \<longrightarrow>
      fst (processApiResponse E data w) \<noteq>
        Some (new_Error (lit ''Invalid response format from server'')))
   \<and> (map_of kvs (lit ''results'') = None \<longrightarrow> invalid_format E (JObj kvs))
   \<and> (t < REQUEST_TIMEOUT \<and> ok r \<and> json r = BodyParsed data \<and> invalid_format E data
        \<and> valid_input w \<longrightarrow>
      handleAnalyzeClick E (Responds t r) w =
        analysis_done (handleError (new_Error (lit ''Invalid response format from server''))
          (send BACKEND_URL (trim (inputText_value w)) False (analysis_started w))))"
proof -
  have 1: "invalid_format E data \<longrightarrow>
      processApiResponse E data w =
        (Some (new_Error (lit ''Invalid response format from server'')), w)" for w
    by (simp add: processApiResponse_def)
  have ne: "lit ''Error'' \<noteq> lit ''TypeError''" by (simp add: lit_def)
  have 2: "\<not> invalid_format E data \<longrightarrow>
      fst (processApiResponse E data w) \<noteq>
        Some (new_Error (lit ''Invalid response format from server''))"
  proof (intro impI notI)
    assume v: "\<not> invalid_format E data"
      and "fst (processApiResponse E data w) = Some (new_Error (lit ''Invalid response format from server''))"
    then obtain w' where "processApiResponse E data w = (Some (new_Error (lit ''Invalid response format from server'')), w')"
      by (cases "processApiResponse E data w") auto
    from valid_error_name [OF v this] ne show False by (simp add: new_Error_def)
  qed
  have 3: "map_of kvs (lit ''results'') = None \<longrightarrow> invalid_format E (JObj kvs)"
    by (simp add: invalid_format_def results_of_def)
  have 4: "t < REQUEST_TIMEOUT \<and> ok r \<and> json r = BodyParsed data \<and> invalid_format E data
        \<and> valid_input w \<longrightarrow>
      handleAnalyzeClick E (Responds t r) w =
        analysis_done (handleError (new_Error (lit ''Invalid response format from server''))
          (send BACKEND_URL (trim (inputText_value w)) False (analysis_started w)))"
    using 1 by (simp add: handle_valid analyzeText_fulfilled)
  from 1 2 3 4 show ?thesis by blast
qed

text \<open>
  A status-200 body \<open>{"status": "ok"}\<close>, which has no \<open>results\<close>; and the sample body,
  which passes the guard.
\<close>

theorem processApiResponse_invalid_format_witness:
  "map_of [(lit ''status'', JStr (lit ''ok''))] (lit ''results'') = None
   \<and> (120::nat) < REQUEST_TIMEOUT
   \<and> ok \<lparr>status = 200, json = BodyParsed (JObj [(lit ''status'', JStr (lit ''ok''))])\<rparr>
   \<and> valid_input sample_page
   \<and> processApiResponse sample_engine (JObj [(lit ''status'', JStr (lit ''ok''))]) sample_page =
       (Some (new_Error (lit ''Invalid response format from server'')), sample_page)
   \<and> handleAnalyzeClick sample_engine
        (Responds 120 \<lparr>status = 200, json = BodyParsed (JObj [(lit ''status'', JStr (lit ''ok''))])\<rparr>)
        sample_page =
       analysis_done (handleError (new_Error (lit ''Invalid response format from server''))
          (send BACKEND_URL (trim (inputText_value sample_page)) False (analysis_started sample_page)))
   \<and> fst (processApiResponse sample_engine sample_body sample_page) \<noteq>
       Some (new_Error (lit ''Invalid response format from server''))"
proof -
  have a: "map_of [(lit ''status'', JStr (lit ''ok''))] (lit ''results'') = None"
    by (simp add: lit_def)
  have b: "(120::nat) < REQUEST_TIMEOUT" by (simp add: REQUEST_TIMEOUT_def)
  have c: "ok \<lparr>status = 200, json = BodyParsed (JObj [(lit ''status'', JStr (lit ''ok''))])\<rparr>"
    by (simp add: ok_def)
  have v: "\<not> invalid_format sample_engine sample_body"
    by (simp add: invalid_format_def result0_of_def results_of_def sample_body_def)
  have 1: "processApiResponse sample_engine (JObj [(lit ''status'', JStr (lit ''ok''))]) sample_page =
       (Some (new_Error (lit ''Invalid response format from server'')), sample_page)"
    and 2: "handleAnalyzeClick sample_engine
        (Responds 120 \<lparr>status = 200, json = BodyParsed (JObj [(lit ''status'', JStr (lit ''ok''))])\<rparr>)
        sample_page =
       analysis_done (handleError (new_Error (lit ''Invalid response format from server''))
          (send BACKEND_URL (trim (inputText_value sample_page)) False (analysis_started sample_page)))"
    using processApiResponse_invalid_format [where kvs = "[(lit ''status'', JStr (lit ''ok''))]" and E = sample_engine
             and data = "JObj [(lit ''status'', JStr (lit ''ok''))]" and w = sample_page
             and t = 120
             and r = "\<lparr>status = 200, json = BodyParsed (JObj [(lit ''status'', JStr (lit ''ok''))])\<rparr>"]
       a b c sample_valid
    by simp_all
  have 3: "fst (processApiResponse sample_engine sample_body sample_page) \<noteq>
       Some (new_Error (lit ''Invalid response format from server''))"
    using processApiResponse_invalid_format [where E = sample_engine and data = sample_body and w = sample_page] v
    by simp
  from a b c sample_valid 1 2 3 show ?thesis by simp
qed

text \<open>
  Claim C2 as stated fails: a body whose \<open>results[0]\<close> has \<open>categories\<close> and
  \<open>category_scores\<close> but no \<open>flagged\<close> passes the guard, nothing is thrown, and the
  verdict shown is the one for safe content.
\<close>

theorem processApiResponse_missing_flagged:
  "\<not> invalid_format sample_engine unflagged_body
   \<and> field_of sample_engine (result0_of sample_engine unflagged_body) ''flagged'' = JUndefined
   \<and> fst (processApiResponse sample_engine unflagged_body sample_page) = None
   \<and> verdictText (snd (processApiResponse sample_engine unflagged_body sample_page)) = safe_html"
proof -
  have r: "result0_of sample_engine unflagged_body = JObj
       [(lit ''categories'', JObj
           [(lit ''hate'', JBool True), (lit ''harassment'', JBool False),
            (lit ''self-harm'', JBool False), (lit ''sexual'', JBool False),
            (lit ''violence'', JBool False)]),
        (lit ''category_scores'', JObj
           [(lit ''hate'', JNum (92 / 100)), (lit ''harassment'', JNum (31 / 100)),
            (lit ''self-harm'', JNum (1 / 100)), (lit ''sexual'', JNum (2 / 100)),
            (lit ''violence'', JNum (12 / 100))])]"
    by (simp add: result0_of_def results_of_def unflagged_body_def)
  have v: "\<not> invalid_format sample_engine unflagged_body"
    unfolding invalid_format_def r by (simp add: results_of_def unflagged_body_def)
  have f: "field_of sample_engine (result0_of sample_engine unflagged_body) ''flagged'' = JUndefined"
    unfolding r by (simp add: field_of_def lit_def)
  have s: "field_of sample_engine (result0_of sample_engine unflagged_body) ''category_scores'' = JObj
           [(lit ''hate'', JNum (92 / 100)), (lit ''harassment'', JNum (31 / 100)),
            (lit ''self-harm'', JNum (1 / 100)), (lit ''sexual'', JNum (2 / 100)),
            (lit ''violence'', JNum (12 / 100))]"
    unfolding r by (simp add: field_of_def lit_def)
  have c: "field_of sample_engine (result0_of sample_engine unflagged_body) ''categories'' = JObj
           [(lit ''hate'', JBool True), (lit ''harassment'', JBool False),
            (lit ''self-harm'', JBool False), (lit ''sexual'', JBool False),
            (lit ''violence'', JBool False)]"
    unfolding r by (simp add: field_of_def lit_def)
  from processApiResponse_objects(1,2) [OF v s c, of sample_page] v f show ?thesis by simp
qed

section \<open>C3: blank input is rejected without a network call\<close>

text \<open>
  Claim C3. When the text area holds only white space (or nothing), the click handler
  shows the alert \<open>Please enter some text to analyze.\<close> and returns: the list of requests
  sent and the count of aborts are what they were.
\<close>

theorem handleAnalyzeClick_blank_input:
  assumes "\<forall>c\<in>set (inputText_value w). isWhiteSpace c"
  shows "handleAnalyzeClick E net w =
           (Fulfilled (), showError (lit ''Please enter some text to analyze.'') w)
       \<and> alerts (snd (handleAnalyzeClick E net w)) =
           alerts w @ [lit ''Please enter some text to analyze.'']
       \<and> requests (snd (handleAnalyzeClick E net w)) = requests w
       \<and> aborts (snd (handleAnalyzeClick E net w)) = aborts w"
proof -
  from assms have "trim (inputText_value w) = []" by (simp add: trim_empty_iff)
  then show ?thesis by (simp add: handle_blank showError_def)
qed

text \<open>
  A space, a tab, a line feed and an ideographic space.
\<close>

theorem handleAnalyzeClick_blank_input_witness:
  "isWhiteSpace 0x20 \<and> isWhiteSpace 0x9 \<and> isWhiteSpace 0xA \<and> isWhiteSpace 0x3000
   \<and> alerts (snd (handleAnalyzeClick sample_engine Silent
        (sample_page\<lparr>inputText_value := [0x20, 0x9, 0xA, 0x3000]\<rparr>))) =
       [lit ''Please enter some text to analyze.'']
   \<and> requests (snd (handleAnalyzeClick sample_engine Silent
        (sample_page\<lparr>inputText_value := [0x20, 0x9, 0xA, 0x3000]\<rparr>))) = []"
proof -
  have h: "\<forall>c\<in>set (inputText_value (sample_page\<lparr>inputText_value := [0x20, 0x9, 0xA, 0x3000]\<rparr>)). isWhiteSpace c"
    by (simp add: isWhiteSpace_def)
  from handleAnalyzeClick_blank_input [OF h, of sample_engine Silent] h show ?thesis
    by (simp add: sample_page_def showError_def)
qed

section \<open>C4: a response with a non-success status\<close>




section \<open>C5: a transport failure\<close>




section \<open>C6: the length of what is submitted\<close>

text \<open>
  Claim C6. The \<open>input\<close> listener truncates the field to its first
  \<open>MAX_INPUT_LENGTH\<close> (2000) code units. The click handler rejects a trimmed text
  longer than \<open>MAX_INPUT_LENGTH\<close> with an alert and sends nothing. Whatever the input, the
  handler sends no request, or one request whose body is \<open>JSON.stringify\<close> of an object
  whose \<open>text\<close> is the trimmed input, of at most \<open>MAX_INPUT_LENGTH\<close> code units.
\<close>

theorem submitted_text_bounded:
  "inputText_value (inputText_input w) = take MAX_INPUT_LENGTH (inputText_value w)
   \<and> length (inputText_value (inputText_input w)) \<le> MAX_INPUT_LENGTH
   \<and> (MAX_INPUT_LENGTH < length (trim (inputText_value w)) \<longrightarrow>
        requests (snd (handleAnalyzeClick E net w)) = requests w
        \<and> alerts (snd (handleAnalyzeClick E net w)) =
            alerts w @ [lit ''Text is too long. Maximum 2000 characters allowed.''])
   \<and> (requests (snd (handleAnalyzeClick E net w)) = requests w
        \<or> length (trim (inputText_value w)) \<le> MAX_INPUT_LENGTH
          \<and> requests (snd (handleAnalyzeClick E net w)) = requests w @
              [\<lparr>url = BACKEND_URL, http_method = lit ''POST'', content_type = lit ''application/json'',
                body = JSON_stringify_text (trim (inputText_value w))\<rparr>])"
proof -
  have 1: "inputText_value (inputText_input w) = take MAX_INPUT_LENGTH (inputText_value w)"
    by (simp add: inputText_input_def)
  have 2: "length (inputText_value (inputText_input w)) \<le> MAX_INPUT_LENGTH"
    unfolding 1 by simp
  have 3: "MAX_INPUT_LENGTH < length (trim (inputText_value w)) \<longrightarrow>
        requests (snd (handleAnalyzeClick E net w)) = requests w
        \<and> alerts (snd (handleAnalyzeClick E net w)) =
            alerts w @ [lit ''Text is too long. Maximum 2000 characters allowed.'']"
  proof
    assume a: "MAX_INPUT_LENGTH < length (trim (inputText_value w))"
    show "requests (snd (handleAnalyzeClick E net w)) = requests w
        \<and> alerts (snd (handleAnalyzeClick E net w)) =
            alerts w @ [lit ''Text is too long. Maximum 2000 characters allowed.'']"
      by (simp add: handle_too_long [OF a] showError_def)
  qed
  have 4: "requests (snd (handleAnalyzeClick E net w)) = requests w
        \<or> length (trim (inputText_value w)) \<le> MAX_INPUT_LENGTH
          \<and> requests (snd (handleAnalyzeClick E net w)) = requests w @
              [\<lparr>url = BACKEND_URL, http_method = lit ''POST'', content_type = lit ''application/json'',
                body = JSON_stringify_text (trim (inputText_value w))\<rparr>]"
  proof (cases "valid_input w")
    case True
    then show ?thesis using handle_valid_requests [OF True, of E net] by (simp add: valid_input_def)
  next
    case False
    then have "trim (inputText_value w) = [] \<or> MAX_INPUT_LENGTH < length (trim (inputText_value w))"
      by (auto simp: valid_input_def)
    then show ?thesis
      by (auto simp: handle_blank handle_too_long showError_def)
  qed
  from 1 2 3 4 show ?thesis by blast
qed

text \<open>
  A text of 2001 letters: nothing is sent, and the listener cuts it to 2000. A text of
  2000 letters: it is sent as it is.
\<close>

theorem submitted_text_bounded_witness:
  "MAX_INPUT_LENGTH < length (trim (inputText_value (sample_page\<lparr>inputText_value := long_text\<rparr>)))
   \<and> requests (snd (handleAnalyzeClick sample_engine Silent
        (sample_page\<lparr>inputText_value := long_text\<rparr>))) = []
   \<and> alerts (snd (handleAnalyzeClick sample_engine Silent
        (sample_page\<lparr>inputText_value := long_text\<rparr>))) =
       [lit ''Text is too long. Maximum 2000 characters allowed.'']
   \<and> length (inputText_value (inputText_input (sample_page\<lparr>inputText_value := long_text\<rparr>))) = 2000
   \<and> length full_text = MAX_INPUT_LENGTH
   \<and> requests (snd (handleAnalyzeClick sample_engine Silent
        (sample_page\<lparr>inputText_value := full_text\<rparr>))) =
       [\<lparr>url = BACKEND_URL, http_method = lit ''POST'', content_type = lit ''application/json'',
         body = JSON_stringify_text full_text\<rparr>]"
proof -
  have w: "\<not> isWhiteSpace 0x61" by (simp add: isWhiteSpace_def)
  have t: "trim (inputText_value (sample_page\<lparr>inputText_value := long_text\<rparr>)) = replicate 2001 0x61"
    by (simp add: long_text_def trim_replicate [OF w])
  have h: "MAX_INPUT_LENGTH < length (trim (inputText_value (sample_page\<lparr>inputText_value := long_text\<rparr>)))"
    unfolding t by (simp add: MAX_INPUT_LENGTH_def)
  have r: "requests (sample_page\<lparr>inputText_value := long_text\<rparr>) = []"
    "alerts (sample_page\<lparr>inputText_value := long_text\<rparr>) = []"
    by (simp_all add: sample_page_def)
  have l: "length (take MAX_INPUT_LENGTH (inputText_value (sample_page\<lparr>inputText_value := long_text\<rparr>))) = 2000"
    by (simp add: long_text_def MAX_INPUT_LENGTH_def)
  have 1: "requests (snd (handleAnalyzeClick sample_engine Silent
        (sample_page\<lparr>inputText_value := long_text\<rparr>))) = []"
    and 2: "alerts (snd (handleAnalyzeClick sample_engine Silent
        (sample_page\<lparr>inputText_value := long_text\<rparr>))) =
       [lit ''Text is too long. Maximum 2000 characters allowed.'']"
    and 3: "length (inputText_value (inputText_input (sample_page\<lparr>inputText_value := long_text\<rparr>))) = 2000"
    using submitted_text_bounded [of "sample_page\<lparr>inputText_value := long_text\<rparr>" sample_engine Silent] h r l
    by simp_all
  have t': "trim (inputText_value (sample_page\<lparr>inputText_value := full_text\<rparr>)) = full_text"
    by (simp add: full_text_def trim_replicate [OF w])
  have f: "length full_text = MAX_INPUT_LENGTH"
    by (simp add: full_text_def MAX_INPUT_LENGTH_def)
  have r': "requests (sample_page\<lparr>inputText_value := full_text\<rparr>) = []"
    by (simp add: sample_page_def)
  have v: "valid_input (sample_page\<lparr>inputText_value := full_text\<rparr>)"
    unfolding valid_input_def t' by (simp add: full_text_def MAX_INPUT_LENGTH_def)
  have s: "requests (snd (handleAnalyzeClick sample_engine Silent
             (sample_page\<lparr>inputText_value := full_text\<rparr>))) \<noteq> []"
    using handle_valid_requests [OF v, of sample_engine Silent] by simp
  have 4: "requests (snd (handleAnalyzeClick sample_engine Silent
        (sample_page\<lparr>inputText_value := full_text\<rparr>))) =
       [\<lparr>url = BACKEND_URL, http_method = lit ''POST'', content_type = lit ''application/json'',
         body = JSON_stringify_text full_text\<rparr>]"
    using submitted_text_bounded [of "sample_page\<lparr>inputText_value := full_text\<rparr>" sample_engine Silent] s
    unfolding t' r' by simp
  from h 1 2 3 f 4 show ?thesis by simp
qed

section \<open>C7: the well-formed flagged response\<close>

text \<open>
  Claim C7. For the response of the claim, with status 200 and in time, \<open>analyzeText\<close>
  returns the parsed body; its \<open>results[0].flagged\<close> is \<open>true\<close> and its
  \<open>results[0].category_scores.hate\<close> is 0.92. \<open>processApiResponse\<close> throws nothing,
  shows the verdict for harmful content and the result box, and sets the \<open>hate\<close> bar,
  where the page has one, to 92 percent, flagged, in red.
\<close>

theorem wellformed_response_flagged_hate:
  "(t < REQUEST_TIMEOUT \<longrightarrow>
      analyzeText E text (Responds t \<lparr>status = 200, json = BodyParsed (claimed_response cs ss)\<rparr>) w =
        (Fulfilled (claimed_response cs ss), send BACKEND_URL text False w))
   \<and> field_of E (result0_of E (claimed_response cs ss)) ''flagged'' = JBool True
   \<and> get_prop E (field_of E (result0_of E (claimed_response cs ss)) ''category_scores'')
        (Name (lit ''hate'')) = Inr (JNum (92 / 100))
   \<and> fst (processApiResponse E (claimed_response cs ss) w) = None
   \<and> verdictText (snd (processApiResponse E (claimed_response cs ss) w)) = flagged_html
   \<and> resultBox_display (snd (processApiResponse E (claimed_response cs ss) w)) = lit ''block''
   \<and> categories (snd (processApiResponse E (claimed_response cs ss) w)) hate =
       map_option (\<lambda>b. b\<lparr>width := lit ''92%'',
                          innerText := [0x26A0, 0xFE0F] @ lit '' 92% - FLAGGED'',
                          backgroundColor := lit ''#ef4444''\<rparr>) (categories w hate)"
proof -
  let ?d = "claimed_response cs ss"
  have r: "result0_of E ?d = JObj
       [(lit ''flagged'', JBool True),
        (lit ''categories'', JObj ((lit ''hate'', JBool True) # cs)),
        (lit ''category_scores'', JObj ((lit ''hate'', JNum (92 / 100)) # ss))]"
    by (simp add: result0_of_def results_of_def claimed_response_def)
  have v: "\<not> invalid_format E ?d"
    unfolding invalid_format_def r by (simp add: results_of_def claimed_response_def)
  have f: "field_of E (result0_of E ?d) ''flagged'' = JBool True"
    unfolding r by (simp add: field_of_def)
  have s: "field_of E (result0_of E ?d) ''category_scores'' = JObj ((lit ''hate'', JNum (92 / 100)) # ss)"
    unfolding r by (simp add: field_of_def lit_def)
  have c: "field_of E (result0_of E ?d) ''categories'' = JObj ((lit ''hate'', JBool True) # cs)"
    unfolding r by (simp add: field_of_def lit_def)
  have o: "ok \<lparr>status = 200, json = BodyParsed ?d\<rparr>" by (simp add: ok_def)
  have 1: "t < REQUEST_TIMEOUT \<longrightarrow>
      analyzeText E text (Responds t \<lparr>status = 200, json = BodyParsed ?d\<rparr>) w =
        (Fulfilled ?d, send BACKEND_URL text False w)"
    using o by (simp add: analyzeText_fulfilled)
  have 3: "get_prop E (field_of E (result0_of E ?d) ''category_scores'')
        (Name (lit ''hate'')) = Inr (JNum (92 / 100))"
    unfolding s by simp
  note p = processApiResponse_objects [OF v s c, of w]
  have 4: "fst (processApiResponse E ?d w) = None" by (rule p(1))
  have 5: "verdictText (snd (processApiResponse E ?d w)) = flagged_html"
    using p(2) f by simp
  have 6: "resultBox_display (snd (processApiResponse E ?d w)) = lit ''block''" by (rule p(3))
  have 7: "categories (snd (processApiResponse E ?d w)) hate =
       map_option (\<lambda>b. b\<lparr>width := lit ''92%'',
                          innerText := [0x26A0, 0xFE0F] @ lit '' 92% - FLAGGED'',
                          backgroundColor := lit ''#ef4444''\<rparr>) (categories w hate)"
    using p(4) f by (simp add: hate_bar_92 [simplified] displayVerdict_def)
  from 1 f 3 4 5 6 7 show ?thesis by blast
qed

text \<open>
  The sample body is such a response.
\<close>

theorem wellformed_response_flagged_hate_witness:
  "(120::nat) < REQUEST_TIMEOUT
   \<and> claimed_response
        [(lit ''harassment'', JBool False), (lit ''self-harm'', JBool False),
         (lit ''sexual'', JBool False), (lit ''violence'', JBool False)]
        [(lit ''harassment'', JNum (31 / 100)), (lit ''self-harm'', JNum (1 / 100)),
         (lit ''sexual'', JNum (2 / 100)), (lit ''violence'', JNum (12 / 100))] = sample_body
   \<and> analyzeText sample_engine (lit ''some text'')
        (Responds 120 \<lparr>status = 200, json = BodyParsed sample_body\<rparr>) sample_page =
       (Fulfilled sample_body, send BACKEND_URL (lit ''some text'') False sample_page)
   \<and> categories (snd (processApiResponse sample_engine sample_body sample_page)) hate =
       Some \<lparr>width = lit ''92%'', innerText = [0x26A0, 0xFE0F] @ lit '' 92% - FLAGGED'',
             backgroundColor = lit ''#ef4444''\<rparr>"
proof -
  have a: "(120::nat) < REQUEST_TIMEOUT" by (simp add: REQUEST_TIMEOUT_def)
  have b: "claimed_response
        [(lit ''harassment'', JBool False), (lit ''self-harm'', JBool False),
         (lit ''sexual'', JBool False), (lit ''violence'', JBool False)]
        [(lit ''harassment'', JNum (31 / 100)), (lit ''self-harm'', JNum (1 / 100)),
         (lit ''sexual'', JNum (2 / 100)), (lit ''violence'', JNum (12 / 100))] = sample_body"
    by (simp add: claimed_response_def sample_body_def)
  have c: "categories sample_page hate = Some sample_bar" by (simp add: sample_page_def)
  from wellformed_response_flagged_hate [of 120 sample_engine "lit ''some text''"
        "[(lit ''harassment'', JBool False), (lit ''self-harm'', JBool False),
         (lit ''sexual'', JBool False), (lit ''violence'', JBool False)]"
        "[(lit ''harassment'', JNum (31 / 100)), (lit ''self-harm'', JNum (1 / 100)),
         (lit ''sexual'', JNum (2 / 100)), (lit ''violence'', JNum (12 / 100))]" sample_page]
  show ?thesis
    unfolding b using a c by (simp add: sample_bar_def)
qed

section \<open>C8: the in-progress indicator is reset\<close>

text \<open>
  Claim C8. On a valid input the click handler either never completes, which happens
  exactly when the headers arrive in time and the body never does, or it completes with
  the loader hidden and the button enabled and labelled \<open>Analyze Text\<close>: so after a
  success, after a thrown error of any kind, and after a timeout with its abort.
\<close>

theorem handleAnalyzeClick_resets_indicator:
  assumes "valid_input w"
  shows "if body_stalls net then fst (handleAnalyzeClick E net w) = Pending
         else fst (handleAnalyzeClick E net w) = Fulfilled ()
            \<and> loader_display (snd (handleAnalyzeClick E net w)) = lit ''none''
            \<and> \<not> analyzeBtn_disabled (snd (handleAnalyzeClick E net w))
            \<and> analyzeBtn_innerHTML (snd (handleAnalyzeClick E net w)) = lit ''Analyze Text''"
proof (cases "analyzeText E (trim (inputText_value w)) net (analysis_started w)")
  case (Pair p w1)
  have st: "(p = Pending) = body_stalls net"
    using analyzeText_pending[of E "trim (inputText_value w)" net "analysis_started w"] Pair by simp
  show ?thesis
  proof (cases p)
    case Pending
    with st Pair assms show ?thesis by (simp add: handle_valid)
  next
    case (Rejected e)
    with st Pair assms show ?thesis by (simp add: handle_valid analysis_done_fields)
  next
    case (Fulfilled d)
    with st Pair assms show ?thesis
      by (cases "processApiResponse E d w1") (auto simp: handle_valid analysis_done_fields split: option.splits)
  qed
qed

text \<open>
  A prompt well-formed response, and headers that no body follows, for the sample page.
\<close>

theorem handleAnalyzeClick_resets_indicator_witness:
  "valid_input sample_page \<and> \<not> body_stalls prompt_reply \<and> body_stalls stalled_reply
   \<and> fst (handleAnalyzeClick sample_engine prompt_reply sample_page) = Fulfilled ()
   \<and> loader_display (snd (handleAnalyzeClick sample_engine prompt_reply sample_page)) = lit ''none''
   \<and> \<not> analyzeBtn_disabled (snd (handleAnalyzeClick sample_engine prompt_reply sample_page))
   \<and> fst (handleAnalyzeClick sample_engine stalled_reply sample_page) = Pending"
proof -
  have s: "\<not> body_stalls prompt_reply" by (simp add: body_stalls_def prompt_reply_def)
  have t: "body_stalls stalled_reply"
    by (simp add: body_stalls_def stalled_reply_def REQUEST_TIMEOUT_def)
  from handleAnalyzeClick_resets_indicator [OF sample_valid, of prompt_reply sample_engine]
       handleAnalyzeClick_resets_indicator [OF sample_valid, of stalled_reply sample_engine] s t sample_valid
  show ?thesis by simp
qed

section \<open>C9: the two versions of analyzeText\<close>

text \<open>
  Claim C9. \<open>REQUEST_TIMEOUT\<close> is 30000 while app.js waits 10000: for a well-formed
  success response that arrives after more than 10000 ms and before 30000 ms, the
  \<open>analyzeText\<close> of app.js aborts and rejects while the one of part_000 returns the body;
  before 10000 ms the two agree on it. For a non-success status app.js throws
  \<open>Backend request failed\<close> whatever the status and the body. Whenever the
  \<open>analyzeText\<close> of app.js rejects, its click handler shows the one text
  \<open>Error analyzing text. Try again.\<close>; so it does for a timeout, a transport failure
  and a status 500, for which the handler of part_000 shows three different messages.
\<close>

theorem analyzeText_versions_differ:
  "REQUEST_TIMEOUT = 30000
   \<and> (10000 < t \<and> t < 30000 \<and> ok r \<and> json r = BodyParsed d \<longrightarrow>
        app_analyzeText E text (Responds t r) w =
          (Rejected (Thrown (lit ''AbortError'') (AbortErrorMessage E)),
           send BACKEND_URL text True w)
        \<and> analyzeText E text (Responds t r) w = (Fulfilled d, send BACKEND_URL text False w))
   \<and> (t < 10000 \<and> ok r \<and> json r = BodyParsed d \<longrightarrow>
        app_analyzeText E text (Responds t r) w = analyzeText E text (Responds t r) w)
   \<and> (t < 10000 \<and> \<not> ok r \<longrightarrow>
        app_analyzeText E text (Responds t r) w =
          (Rejected (new_Error (lit ''Backend request failed'')),
           send BACKEND_URL text False w))
   \<and> (trim (inputText_value w) \<noteq> []
        \<and> fst (app_analyzeText E (trim (inputText_value w)) net
                 (app_resetUI (app_showLoader True w))) = Rejected e \<longrightarrow>
        verdictText (snd (app_click E net w)) = app_error_text)
   \<and> (valid_input w \<longrightarrow>
        verdictText (snd (handleAnalyzeClick E Silent w)) =
          error_html ([0x26A0, 0xFE0F] @ lit '' Error: '' @ timeout_message @ timeout_tip)
        \<and> verdictText (snd (handleAnalyzeClick E offline w)) =
          error_html ([0x26A0, 0xFE0F] @ lit '' Error: '' @ connect_message @ connect_tip)
        \<and> verdictText (snd (handleAnalyzeClick E (Responds 0 server_down) w)) =
          error_html ([0x26A0, 0xFE0F] @ lit '' Error: '' @ lit ''Server error: 500'')
        \<and> verdictText (snd (app_click E Silent w)) = app_error_text
        \<and> verdictText (snd (app_click E offline w)) = app_error_text
        \<and> verdictText (snd (app_click E (Responds 0 server_down) w)) = app_error_text)"
proof -
  have 1: "REQUEST_TIMEOUT = 30000" by (simp add: REQUEST_TIMEOUT_def)
  have 2: "10000 < t \<and> t < 30000 \<and> ok r \<and> json r = BodyParsed d \<longrightarrow>
        app_analyzeText E text (Responds t r) w =
          (Rejected (Thrown (lit ''AbortError'') (AbortErrorMessage E)),
           send BACKEND_URL text True w)
        \<and> analyzeText E text (Responds t r) w = (Fulfilled d, send BACKEND_URL text False w)"
    by (simp add: app_analyzeText_late no_response_within_def analyzeText_fulfilled 1)
  have 3: "t < 10000 \<and> ok r \<and> json r = BodyParsed d \<longrightarrow>
        app_analyzeText E text (Responds t r) w = analyzeText E text (Responds t r) w"
    by (simp add: app_analyzeText_in_time analyzeText_fulfilled 1)
  have n3: "t < 10000 \<and> \<not> ok r \<longrightarrow>
        app_analyzeText E text (Responds t r) w =
          (Rejected (new_Error (lit ''Backend request failed'')),
           send BACKEND_URL text False w)"
    by (simp add: app_analyzeText_in_time)
  have 4: "trim (inputText_value w) \<noteq> []
        \<and> fst (app_analyzeText E (trim (inputText_value w)) net
                 (app_resetUI (app_showLoader True w))) = Rejected e \<longrightarrow>
        verdictText (snd (app_click E net w)) = app_error_text"
    by (simp add: app_rejected)
  have 5: "valid_input w \<longrightarrow>
        verdictText (snd (handleAnalyzeClick E Silent w)) =
          error_html ([0x26A0, 0xFE0F] @ lit '' Error: '' @ timeout_message @ timeout_tip)
        \<and> verdictText (snd (handleAnalyzeClick E offline w)) =
          error_html ([0x26A0, 0xFE0F] @ lit '' Error: '' @ connect_message @ connect_tip)
        \<and> verdictText (snd (handleAnalyzeClick E (Responds 0 server_down) w)) =
          error_html ([0x26A0, 0xFE0F] @ lit '' Error: '' @ lit ''Server error: 500'')
        \<and> verdictText (snd (app_click E Silent w)) = app_error_text
        \<and> verdictText (snd (app_click E offline w)) = app_error_text
        \<and> verdictText (snd (app_click E (Responds 0 server_down) w)) = app_error_text"
  proof
    assume v: "valid_input w"
    then have n: "trim (inputText_value w) \<noteq> []" by (simp add: valid_input_def)
    have z: "(0::nat) < REQUEST_TIMEOUT" by (simp add: 1)
    have nok: "\<not> ok server_down" by (simp add: server_down_def ok_def)
    have ta: "lit ''TypeError'' \<noteq> lit ''AbortError''" by (simp add: lit_def)
    have js: "json server_down = BodyRejects (Thrown (lit ''SyntaxError'') (lit ''Unexpected end of JSON input''))"
      "status server_down = 500"
      by (simp_all add: server_down_def)
    have a: "fst (analyzeText E (trim (inputText_value w)) Silent (analysis_started w))
               = Rejected (new_Error timeout_message)"
      by (simp add: analyzeText_late no_response_within_def)
    have b: "fst (analyzeText E (trim (inputText_value w)) offline (analysis_started w))
               = Rejected (new_Error connect_message)"
      using ta by (simp add: offline_def analyzeText_fails [OF z] analyzeText_catch_def message_kinds)
    have c: "fst (analyzeText E (trim (inputText_value w)) (Responds 0 server_down) (analysis_started w))
               = Rejected (new_Error (lit ''Server error: 500''))"
      using catch_generic [of 500]
      by (simp add: analyzeText_not_ok [OF z nok] js server_error_def digits_500 lit_append)
    have a': "fst (app_analyzeText E (trim (inputText_value w)) Silent (app_resetUI (app_showLoader True w)))
               = Rejected (Thrown (lit ''AbortError'') (AbortErrorMessage E))"
      by (simp add: app_analyzeText_late no_response_within_def)
    have b': "fst (app_analyzeText E (trim (inputText_value w)) offline (app_resetUI (app_showLoader True w)))
               = Rejected (Thrown (lit ''TypeError'') (lit ''Failed to fetch''))"
      by (simp add: offline_def app_analyzeText_in_time)
    have c': "fst (app_analyzeText E (trim (inputText_value w)) (Responds 0 server_down) (app_resetUI (app_showLoader True w)))
               = Rejected (new_Error (lit ''Backend request failed''))"
      using nok by (simp add: app_analyzeText_in_time)
    show "verdictText (snd (handleAnalyzeClick E Silent w)) =
          error_html ([0x26A0, 0xFE0F] @ lit '' Error: '' @ timeout_message @ timeout_tip)
        \<and> verdictText (snd (handleAnalyzeClick E offline w)) =
          error_html ([0x26A0, 0xFE0F] @ lit '' Error: '' @ connect_message @ connect_tip)
        \<and> verdictText (snd (handleAnalyzeClick E (Responds 0 server_down) w)) =
          error_html ([0x26A0, 0xFE0F] @ lit '' Error: '' @ lit ''Server error: 500'')
        \<and> verdictText (snd (app_click E Silent w)) = app_error_text
        \<and> verdictText (snd (app_click E offline w)) = app_error_text
        \<and> verdictText (snd (app_click E (Responds 0 server_down) w)) = app_error_text"
      using handle_rejected [OF v a] handle_rejected [OF v b] handle_rejected [OF v c]
        app_rejected [OF n a'] app_rejected [OF n b'] app_rejected [OF n c']
      by (simp add: new_Error_def message_kinds)
  qed
  from 1 2 3 n3 4 5 show ?thesis by blast
qed

text \<open>
  A response after 15 seconds and one after 120 milliseconds, a status 500, and the
  verdicts of both handlers for a timeout and for a transport failure.
\<close>

theorem analyzeText_versions_differ_witness:
  "(10000::nat) < 15000 \<and> (15000::nat) < 30000 \<and> (120::nat) < 10000
   \<and> ok \<lparr>status = 200, json = BodyParsed sample_body\<rparr> \<and> \<not> ok server_down
   \<and> valid_input sample_page
   \<and> app_analyzeText sample_engine (lit ''some text'')
        (Responds 15000 \<lparr>status = 200, json = BodyParsed sample_body\<rparr>) sample_page =
       (Rejected (Thrown (lit ''AbortError'') (AbortErrorMessage sample_engine)),
        send BACKEND_URL (lit ''some text'') True sample_page)
   \<and> analyzeText sample_engine (lit ''some text'')
        (Responds 15000 \<lparr>status = 200, json = BodyParsed sample_body\<rparr>) sample_page =
       (Fulfilled sample_body, send BACKEND_URL (lit ''some text'') False sample_page)
   \<and> app_analyzeText sample_engine (lit ''some text'')
        (Responds 120 \<lparr>status = 200, json = BodyParsed sample_body\<rparr>) sample_page =
       analyzeText sample_engine (lit ''some text'')
        (Responds 120 \<lparr>status = 200, json = BodyParsed sample_body\<rparr>) sample_page
   \<and> app_analyzeText sample_engine (lit ''some text'') (Responds 120 server_down) sample_page =
       (Rejected (new_Error (lit ''Backend request failed'')),
        send BACKEND_URL (lit ''some text'') False sample_page)
   \<and> verdictText (snd (app_click sample_engine late_reply sample_page)) = app_error_text
   \<and> verdictText (snd (app_click sample_engine Silent sample_page)) =
       verdictText (snd (app_click sample_engine offline sample_page))
   \<and> verdictText (snd (handleAnalyzeClick sample_engine Silent sample_page)) \<noteq>
       verdictText (snd (handleAnalyzeClick sample_engine offline sample_page))"
proof -
  have o: "ok \<lparr>status = 200, json = BodyParsed sample_body\<rparr>" by (simp add: ok_def)
  have no: "\<not> ok server_down" by (simp add: ok_def server_down_def)
  have d: "timeout_message @ timeout_tip \<noteq> connect_message @ connect_tip"
    by (simp add: timeout_message_def connect_message_def lit_def)
  have n: "trim (inputText_value sample_page) \<noteq> []"
    using sample_valid by (simp add: valid_input_def)
  have l: "fst (app_analyzeText sample_engine (trim (inputText_value sample_page)) late_reply
                 (app_resetUI (app_showLoader True sample_page))) =
             Rejected (Thrown (lit ''AbortError'') (AbortErrorMessage sample_engine))"
    by (simp add: app_analyzeText_late no_response_within_def late_reply_def)
  note c = analyzeText_versions_differ [of 15000 "\<lparr>status = 200, json = BodyParsed sample_body\<rparr>" sample_body
             sample_engine "lit ''some text''" sample_page Silent]
  from c o have 1: "app_analyzeText sample_engine (lit ''some text'')
        (Responds 15000 \<lparr>status = 200, json = BodyParsed sample_body\<rparr>) sample_page =
       (Rejected (Thrown (lit ''AbortError'') (AbortErrorMessage sample_engine)),
        send BACKEND_URL (lit ''some text'') True sample_page)"
    and 2: "analyzeText sample_engine (lit ''some text'')
        (Responds 15000 \<lparr>status = 200, json = BodyParsed sample_body\<rparr>) sample_page =
       (Fulfilled sample_body, send BACKEND_URL (lit ''some text'') False sample_page)"
    by simp_all
  from c sample_valid have 3: "verdictText (snd (app_click sample_engine Silent sample_page)) =
       verdictText (snd (app_click sample_engine offline sample_page))"
    by simp
  from c sample_valid have
    "verdictText (snd (handleAnalyzeClick sample_engine Silent sample_page)) =
       error_html ([0x26A0, 0xFE0F] @ lit '' Error: '' @ timeout_message @ timeout_tip)"
    "verdictText (snd (handleAnalyzeClick sample_engine offline sample_page)) =
       error_html ([0x26A0, 0xFE0F] @ lit '' Error: '' @ connect_message @ connect_tip)"
    by simp_all
  with d have 4: "verdictText (snd (handleAnalyzeClick sample_engine Silent sample_page)) \<noteq>
       verdictText (snd (handleAnalyzeClick sample_engine offline sample_page))"
    by (simp add: error_html_inject)
  have 5: "app_analyzeText sample_engine (lit ''some text'')
        (Responds 120 \<lparr>status = 200, json = BodyParsed sample_body\<rparr>) sample_page =
       analyzeText sample_engine (lit ''some text'')
        (Responds 120 \<lparr>status = 200, json = BodyParsed sample_body\<rparr>) sample_page"
    using analyzeText_versions_differ [of 120 "\<lparr>status = 200, json = BodyParsed sample_body\<rparr>" sample_body
             sample_engine "lit ''some text''" sample_page Silent] o
    by simp
  have 6: "app_analyzeText sample_engine (lit ''some text'') (Responds 120 server_down) sample_page =
       (Rejected (new_Error (lit ''Backend request failed'')),
        send BACKEND_URL (lit ''some text'') False sample_page)"
    using analyzeText_versions_differ [of 120 server_down sample_body sample_engine "lit ''some text''" sample_page Silent] no
    by simp
  have 7: "verdictText (snd (app_click sample_engine late_reply sample_page)) = app_error_text"
    using analyzeText_versions_differ [of 15000 "\<lparr>status = 200, json = BodyParsed sample_body\<rparr>" sample_body
             sample_engine "lit ''some text''" sample_page late_reply
             "Thrown (lit ''AbortError'') (AbortErrorMessage sample_engine)"] n l
    by simp
  from o no sample_valid 1 2 3 4 5 6 7 show ?thesis by simp
qed

section \<open>C10: a validation failure changes nothing but the alerts\<close>

text \<open>
  Claim C10. When the trimmed text is empty or longer than \<open>MAX_INPUT_LENGTH\<close>, the click
  handler completes with the page as it was but for one more alert: no request, no
  abort, and the loader, the verdict, the result box, the button, the category bars and
  the text area are unchanged.
\<close>

theorem handleAnalyzeClick_validation_atomic:
  assumes "trim (inputText_value w) = [] \<or> MAX_INPUT_LENGTH < length (trim (inputText_value w))"
  shows "handleAnalyzeClick E net w =
           (Fulfilled (),
            w\<lparr>alerts := alerts w @
                 [if trim (inputText_value w) = [] then lit ''Please enter some text to analyze.''
                  else lit ''Text is too long. Maximum 2000 characters allowed.'']\<rparr>)
       \<and> requests (snd (handleAnalyzeClick E net w)) = requests w
       \<and> aborts (snd (handleAnalyzeClick E net w)) = aborts w
       \<and> loader_display (snd (handleAnalyzeClick E net w)) = loader_display w
       \<and> verdictText (snd (handleAnalyzeClick E net w)) = verdictText w
       \<and> resultBox_display (snd (handleAnalyzeClick E net w)) = resultBox_display w
       \<and> analyzeBtn_disabled (snd (handleAnalyzeClick E net w)) = analyzeBtn_disabled w
       \<and> analyzeBtn_innerHTML (snd (handleAnalyzeClick E net w)) = analyzeBtn_innerHTML w
       \<and> categories (snd (handleAnalyzeClick E net w)) = categories w
       \<and> inputText_value (snd (handleAnalyzeClick E net w)) = inputText_value w"
proof (cases "trim (inputText_value w) = []")
  case True
  then show ?thesis by (simp add: handle_blank showError_def)
next
  case False
  with assms have "MAX_INPUT_LENGTH < length (trim (inputText_value w))" by simp
  with False show ?thesis by (simp add: handle_too_long showError_def)
qed

text \<open>
  A text of 2001 letters.
\<close>

theorem handleAnalyzeClick_validation_atomic_witness:
  "(trim (inputText_value (sample_page\<lparr>inputText_value := long_text\<rparr>)) = []
      \<or> MAX_INPUT_LENGTH < length (trim (inputText_value (sample_page\<lparr>inputText_value := long_text\<rparr>))))
   \<and> snd (handleAnalyzeClick sample_engine Silent (sample_page\<lparr>inputText_value := long_text\<rparr>)) =
       sample_page\<lparr>inputText_value := long_text,
                   alerts := [lit ''Text is too long. Maximum 2000 characters allowed.'']\<rparr>"
proof -
  have w: "\<not> isWhiteSpace 0x61" by (simp add: isWhiteSpace_def)
  have t: "trim (inputText_value (sample_page\<lparr>inputText_value := long_text\<rparr>)) = replicate 2001 0x61"
    by (simp add: long_text_def trim_replicate [OF w])
  have h: "trim (inputText_value (sample_page\<lparr>inputText_value := long_text\<rparr>)) = []
      \<or> MAX_INPUT_LENGTH < length (trim (inputText_value (sample_page\<lparr>inputText_value := long_text\<rparr>)))"
    unfolding t by (simp add: MAX_INPUT_LENGTH_def)
  have n: "replicate 2001 (0x61 :: 16 word) \<noteq> []" by simp
  from handleAnalyzeClick_validation_atomic [OF h, of sample_engine Silent] h show ?thesis
    unfolding t using n by (simp add: sample_page_def)
qed

end
